theory Spec2Isabelle
  imports Main "HOL-Library.Word"
begin

section \<open>vbox-monitor: the snapshot store (Monitor) and the dashboard controller (UI)\<close>

text \<open>
  A shallow embedding of \<^verbatim>\<open>VBox/Monitor.cpp\<close> and \<^verbatim>\<open>VBox/UI.cpp\<close>.
  The embedding is sequential: every member function is a function from the object's
  state to its new state. The recursive mutex of \<^verbatim>\<open>Monitor::IMPL\<close> carries no data
  and is left out; what a polling thread writes between two calls is an event of its own
  (see \<open>UI_event\<close> below).
\<close>

subsection \<open>Data\<close>

text \<open>\<^verbatim>\<open>size_t\<close> is a 64-bit unsigned integer; \<open>+\<close>, \<open>-\<close> and \<open>*\<close> wrap around.\<close>

type_synonym size_t = "64 word"
type_synonym uint8_t = "8 word"

text \<open>
  \<^verbatim>\<open>VM::Registers\<close>, \<^verbatim>\<open>VM::StackEntry\<close> and \<^verbatim>\<open>VM::CoreDump\<close> are declared in headers
  that are not part of the sources. A register set is kept as the sequence of
  (name, value) pairs that \<^verbatim>\<open>all()\<close> yields; a stack entry keeps the string rendering
  of its four pointers and its four argument words; a core dump is its interface,
  \<^verbatim>\<open>memorySize()\<close> and \<^verbatim>\<open>readMemory( offset, size )\<close>.
\<close>

type_synonym Registers = "(string \<times> size_t) list"

record StackEntry =
  bp :: string
  retBP :: string
  retIP :: string
  arg0 :: size_t
  arg1 :: size_t
  arg2 :: size_t
  arg3 :: size_t
  ip :: string

record CoreDump =
  memorySize :: size_t
  readMemory :: "size_t \<Rightarrow> size_t \<Rightarrow> uint8_t list"

text \<open>A \<^verbatim>\<open>std::thread\<close> handle is identified by the polling routine it runs.\<close>

datatype thread = UpdateRegisters | UpdateStack | UpdateMemory | UpdateLiveStatus

text \<open>
  \<^verbatim>\<open>Monitor::IMPL\<close>. A \<^verbatim>\<open>std::optional\<close> and a \<^verbatim>\<open>std::shared_ptr\<close> are options
  (\<open>None\<close> is \<^verbatim>\<open>nullopt\<close> and \<^verbatim>\<open>nullptr\<close>); the dump is never written through the
  pointer, so sharing is not visible.
\<close>

record Monitor_IMPL =
  vmName :: string
  registers :: "Registers option"
  stack :: "StackEntry list"
  dump :: "CoreDump option"
  running :: bool
  stop :: bool
  live :: bool
  threads :: "thread list"

subsection \<open>Monitor: construction and copy\<close>

text \<open>
  \<^verbatim>\<open>Monitor::IMPL::IMPL( const std::string & vmName )\<close>. \<^verbatim>\<open>Manage::runningVMs()\<close> is an
  external call; the names of the machines it reports are the parameter \<open>runningVMs\<close>.
  The members without an initialiser are default-constructed.
\<close>

definition Monitor_IMPL_new :: "string list \<Rightarrow> string \<Rightarrow> Monitor_IMPL" where
  "Monitor_IMPL_new runningVMs name =
     \<lparr> vmName = name, registers = None, stack = [], dump = None,
       running = False, stop = False,
       live = fold (\<lambda>info l. if info = name then True else l) runningVMs False,
       threads = [] \<rparr>"

text \<open>
  \<^verbatim>\<open>Monitor::IMPL::IMPL( const IMPL & o, const std::lock_guard< ... > & l )\<close>, to which
  the copy constructors of \<^verbatim>\<open>IMPL\<close> and of \<^verbatim>\<open>Monitor\<close> delegate.
\<close>

definition Monitor_IMPL_copy :: "Monitor_IMPL \<Rightarrow> Monitor_IMPL" where
  "Monitor_IMPL_copy o' =
     \<lparr> vmName = vmName o', registers = registers o', stack = stack o', dump = dump o',
       running = False, stop = False, live = False, threads = [] \<rparr>"

subsection \<open>Monitor: accessors\<close>

definition Monitor_live :: "Monitor_IMPL \<Rightarrow> bool" where
  "Monitor_live m = live m"

definition Monitor_registers :: "Monitor_IMPL \<Rightarrow> Registers option" where
  "Monitor_registers m = registers m"

definition Monitor_stack :: "Monitor_IMPL \<Rightarrow> StackEntry list" where
  "Monitor_stack m = stack m"

definition Monitor_dump :: "Monitor_IMPL \<Rightarrow> CoreDump option" where
  "Monitor_dump m = dump m"

subsection \<open>Monitor: start and stop\<close>

text \<open>
  \<^verbatim>\<open>Monitor::start\<close>: returns at once when \<^verbatim>\<open>_running\<close> is set; otherwise clears
  \<^verbatim>\<open>_stop\<close>, sets \<^verbatim>\<open>_running\<close> and pushes the four new threads onto \<^verbatim>\<open>_threads\<close>.
\<close>

definition Monitor_start :: "Monitor_IMPL \<Rightarrow> Monitor_IMPL" where
  "Monitor_start m =
     (if running m then m
      else m\<lparr> stop := False, running := True,
              threads := threads m @ [UpdateRegisters, UpdateStack, UpdateMemory, UpdateLiveStatus] \<rparr>)"

text \<open>
  \<^verbatim>\<open>Monitor::stop\<close>: moves \<^verbatim>\<open>_threads\<close> into a local vector (the member is left
  empty) and sets \<^verbatim>\<open>_stop\<close>, joins the local threads, then clears \<^verbatim>\<open>_running\<close>.
  There is no test of \<^verbatim>\<open>_running\<close> on this path.
\<close>

definition Monitor_stop :: "Monitor_IMPL \<Rightarrow> Monitor_IMPL" where
  "Monitor_stop m = m\<lparr> threads := [], stop := True, running := False \<rparr>"

datatype Monitor_call = Start | Stop

fun Monitor_apply :: "Monitor_IMPL \<Rightarrow> Monitor_call \<Rightarrow> Monitor_IMPL" where
  "Monitor_apply m Start = Monitor_start m"
| "Monitor_apply m Stop = Monitor_stop m"

fun Monitor_calls :: "Monitor_IMPL \<Rightarrow> Monitor_call list \<Rightarrow> Monitor_IMPL" where
  "Monitor_calls m [] = m"
| "Monitor_calls m (c # cs) = Monitor_calls (Monitor_apply m c) cs"

subsection \<open>The controller's collaborators\<close>

text \<open>
  The controller draws through ncurses and drives a \<^verbatim>\<open>Screen\<close> and a \<^verbatim>\<open>Monitor\<close>.
  Every call with an effect outside the controller is recorded, in program order, as a
  \<open>call\<close>. A \<^verbatim>\<open>printw\<close> keeps its format string and its arguments;
  \<open>Monitor_started\<close> and \<open>Monitor_stopped\<close> stand for the calls of \<^verbatim>\<open>Monitor::start\<close>
  and \<^verbatim>\<open>Monitor::stop\<close>, whose effect on the monitor is applied to the state as well.
\<close>

datatype arg = ArgStr string | ArgSize size_t | ArgInt int | ArgChar uint8_t

datatype call =
    Move int int
  | Hline int
  | Printw string "arg list"
  | NewWin int int int int
  | Box
  | WMove int int
  | WPrintw string "arg list"
  | WHline int
  | WVline int
  | WRefresh
  | DelWin
  | Screen_refresh
  | Screen_start
  | Screen_stop
  | Monitor_started
  | Monitor_stopped

text \<open>
  \<^verbatim>\<open>Screen.hpp\<close> is not part of the sources. Of the screen the model keeps what
  \<^verbatim>\<open>width()\<close> and \<^verbatim>\<open>height()\<close> return at the moment; both are compared with
  and assigned to \<^verbatim>\<open>size_t\<close> values in \<^verbatim>\<open>UI.cpp\<close>.
\<close>

record Screen =
  width :: size_t
  height :: size_t

text \<open>
  Helpers of headers that are not part of the sources (\<^verbatim>\<open>Casts.hpp\<close>,
  \<^verbatim>\<open>String.hpp\<close>) and of the C library are parameters of the drawing routines.
\<close>

record Helpers =
  numeric_cast_int :: "size_t \<Rightarrow> int"
  numeric_cast_byte :: "uint8_t \<Rightarrow> int"
  toUpper :: "string \<Rightarrow> string"
  toHex :: "size_t \<Rightarrow> string"
  isprint :: "uint8_t \<Rightarrow> bool"
  isspace :: "uint8_t \<Rightarrow> bool"

subsection \<open>UI: state, construction, run\<close>

text \<open>
  \<^verbatim>\<open>UI::IMPL\<close>. The field \<open>calls\<close> is not a member of the class: it is the sequence of
  calls the controller has made so far.
\<close>

record UI_IMPL =
  ui_running :: bool
  ui_vmName :: string
  screen :: Screen
  monitor :: Monitor_IMPL
  memoryOffset :: size_t
  memoryBytesPerLine :: size_t
  memoryLines :: size_t
  totalMemory :: size_t
  calls :: "call list"

definition emit :: "UI_IMPL \<Rightarrow> call list \<Rightarrow> UI_IMPL" where
  "emit s cs = s\<lparr> calls := calls s @ cs \<rparr>"

text \<open>
  \<^verbatim>\<open>UI::IMPL::IMPL( const std::string & vmName )\<close>; \<^verbatim>\<open>_setup\<close> installs the two
  callbacks \<open>onUpdate\<close> and \<open>onKeyPress\<close> defined below.
\<close>

definition UI_IMPL_new :: "string list \<Rightarrow> Screen \<Rightarrow> string \<Rightarrow> UI_IMPL" where
  "UI_IMPL_new runningVMs scr name =
     \<lparr> ui_running = False, ui_vmName = name, screen = scr,
       monitor = Monitor_IMPL_new runningVMs name,
       memoryOffset = 0, memoryBytesPerLine = 0, memoryLines = 0, totalMemory = 0,
       calls = [] \<rparr>"

text \<open>
  \<^verbatim>\<open>UI::run\<close>. \<^verbatim>\<open>Screen::start\<close> runs the screen's loop, which calls the two
  callbacks; the loop is not part of the sources, and the callbacks are events of
  \<open>UI_event\<close>.
\<close>

definition UI_run :: "UI_IMPL \<Rightarrow> UI_IMPL" where
  "UI_run s =
     (if ui_running s then s
      else emit (emit (s\<lparr> monitor := Monitor_start (monitor s) \<rparr>) [Monitor_started])
             [Screen_start])"

subsection \<open>UI: the memory viewport\<close>

definition memoryScrollUp :: "UI_IMPL \<Rightarrow> size_t \<Rightarrow> UI_IMPL" where
  "memoryScrollUp s n =
     (if memoryOffset s > memoryBytesPerLine s * n
      then s\<lparr> memoryOffset := memoryOffset s - memoryBytesPerLine s * n \<rparr>
      else s\<lparr> memoryOffset := 0 \<rparr>)"

definition memoryScrollDown :: "UI_IMPL \<Rightarrow> size_t \<Rightarrow> UI_IMPL" where
  "memoryScrollDown s n =
     (if memoryOffset s + memoryBytesPerLine s * n < totalMemory s
      then s\<lparr> memoryOffset := memoryOffset s + memoryBytesPerLine s * n \<rparr>
      else s)"

definition memoryPageUp :: "UI_IMPL \<Rightarrow> UI_IMPL" where
  "memoryPageUp s = memoryScrollUp s (memoryLines s)"

definition memoryPageDown :: "UI_IMPL \<Rightarrow> UI_IMPL" where
  "memoryPageDown s = memoryScrollDown s (memoryLines s)"

subsection \<open>UI: the key callback\<close>

text \<open>The lambda given to \<^verbatim>\<open>onKeyPress\<close> in \<^verbatim>\<open>_setup\<close>; the default of \<^verbatim>\<open>n\<close> is 1.\<close>

definition onKeyPress :: "UI_IMPL \<Rightarrow> int \<Rightarrow> UI_IMPL" where
  "onKeyPress s key =
     (if key = of_char CHR ''q''
      then emit (emit (s\<lparr> monitor := Monitor_stop (monitor s) \<rparr>) [Monitor_stopped])
             [Screen_stop]
      else if key = of_char CHR ''a'' then memoryScrollUp s 1
      else if key = of_char CHR ''s'' then memoryScrollDown s 1
      else if key = of_char CHR ''d'' then memoryPageUp s
      else if key = of_char CHR ''f'' then memoryPageDown s
      else if key = of_char CHR ''g'' then s\<lparr> memoryOffset := 0 \<rparr>
      else s)"

subsection \<open>UI: the panels\<close>

definition drawTitle :: "Helpers \<Rightarrow> UI_IMPL \<Rightarrow> UI_IMPL" where
  "drawTitle h s =
     emit s [Move 0 0, Hline (numeric_cast_int h (width (screen s))),
             Move 1 0, Printw ''VirtualBox: %s'' [ArgStr (ui_vmName s)],
             Move 2 0, Hline (numeric_cast_int h (width (screen s)))]"

text \<open>The loop \<^verbatim>\<open>for( size_t i = reg.size(); i < 6; i++ ) reg = " " + reg\<close>.\<close>

function padRegister :: "nat \<Rightarrow> string \<Rightarrow> string" where
  "padRegister i reg = (if i < 6 then padRegister (i + 1) (CHR '' '' # reg) else reg)"
  by pat_completeness auto
termination
  by (relation "measure (\<lambda>(i, reg). 6 - i)") auto

fun registerRows :: "Helpers \<Rightarrow> int \<Rightarrow> Registers \<Rightarrow> call list" where
  "registerRows h y [] = []"
| "registerRows h y (p # ps) =
     (let reg = toUpper h (fst p);
          reg = padRegister (length reg) reg;
          reg = reg @ '': '';
          reg = reg @ toHex h (snd p)
      in [WMove y 2, WPrintw reg []] @ registerRows h (y + 1) ps)"

definition drawRegisters :: "Helpers \<Rightarrow> UI_IMPL \<Rightarrow> UI_IMPL" where
  "drawRegisters h s =
     (if width (screen s) < 30 \<or> height (screen s) < 25 then s
      else
        let s = emit s [NewWin 22 30 3 0, Box, WMove 1 2, WPrintw ''CPU Registers:'' [],
                        WMove 2 1, WHline 28];
            s = (case Monitor_registers (monitor s) of
                   None \<Rightarrow> s
                 | Some regs \<Rightarrow> emit s (registerRows h 3 regs))
        in emit s [Screen_refresh, WRefresh, DelWin])"

text \<open>
  The loop over the stack entries, left at \<^verbatim>\<open>i == 16\<close>. In the format string of the
  source the first bar is followed by the two bytes \<open>0xC2 0xA0\<close>, not by a space.
\<close>

fun stackRows :: "Helpers \<Rightarrow> nat \<Rightarrow> int \<Rightarrow> StackEntry list \<Rightarrow> call list" where
  "stackRows h i y [] = []"
| "stackRows h i y (e # es) =
     (if i = 16 then []
      else [WMove y 2,
            WPrintw (''%s |'' @ [CHR 0xC2, CHR 0xA0] @ ''%s | %s | %s | %s | %s | %s | %s'')
              [ArgStr (bp e), ArgStr (retBP e), ArgStr (retIP e),
               ArgStr (toHex h (arg0 e)), ArgStr (toHex h (arg1 e)),
               ArgStr (toHex h (arg2 e)), ArgStr (toHex h (arg3 e)), ArgStr (ip e)]]
           @ stackRows h (i + 1) (y + 1) es)"

definition drawStack :: "Helpers \<Rightarrow> UI_IMPL \<Rightarrow> UI_IMPL" where
  "drawStack h s =
     (if width (screen s) < 190 \<or> height (screen s) < 25 then s
      else
        let w = numeric_cast_int h (width (screen s));
            s = emit s [NewWin 22 (w - 30) 3 30, Box, WMove 1 2, WPrintw ''Stack:'' [],
                        WMove 2 1, WHline (w - 32)];
            s = emit s [WMove 3 2,
                        WPrintw ''SS:BP:                | Ret SS:BP:            | Ret CS:EIP:           | Arg 0:     | Arg 1:     | Arg 2:     | Arg 3:     | CS:EIP:'' [],
                        WMove 4 1, WHline (w - 32)];
            s = emit s (stackRows h 0 5 (Monitor_stack (monitor s)))
        in emit s [Screen_refresh, WRefresh, DelWin])"

text \<open>
  The two loops over the bytes read from the dump. \<open>i\<close> is the loop index, \<open>y\<close> and
  \<open>off\<close> are the locals \<^verbatim>\<open>y\<close> and \<^verbatim>\<open>offset\<close>; \<open>P\<close> is \<^verbatim>\<open>_memoryBytesPerLine\<close>.
\<close>

fun hexRows :: "Helpers \<Rightarrow> size_t \<Rightarrow> nat \<Rightarrow> int \<Rightarrow> size_t \<Rightarrow> uint8_t list \<Rightarrow> call list" where
  "hexRows h P i y off [] = []"
| "hexRows h P i y off (b # bs) =
     (if (of_nat i :: size_t) mod P = 0
      then [WMove (y + 1) 2, WPrintw ''%016X: '' [ArgSize off],
            WPrintw ''%02X '' [ArgInt (numeric_cast_byte h b)]]
           @ hexRows h P (i + 1) (y + 1) (off + P) bs
      else WPrintw ''%02X '' [ArgInt (numeric_cast_byte h b)]
           # hexRows h P (i + 1) y off bs)"

fun asciiRows :: "Helpers \<Rightarrow> size_t \<Rightarrow> nat \<Rightarrow> int \<Rightarrow> uint8_t list \<Rightarrow> call list" where
  "asciiRows h P i y [] = []"
| "asciiRows h P i y (b # bs) =
     (let c = (if \<not> isprint h b \<or> isspace h b then of_char CHR ''.'' else b)
      in if (of_nat i :: size_t) mod P = 0
         then [WMove (y + 1) (numeric_cast_int h (P * 3) + 4 + 18), WPrintw ''%c'' [ArgChar c]]
              @ asciiRows h P (i + 1) (y + 1) bs
         else WPrintw ''%c'' [ArgChar c] # asciiRows h P (i + 1) y bs)"

definition drawMemory :: "Helpers \<Rightarrow> UI_IMPL \<Rightarrow> UI_IMPL" where
  "drawMemory h s =
     (if width (screen s) < 30 \<or> height (screen s) < 35 then s
      else
        let s = emit s [NewWin (numeric_cast_int h (height (screen s)) - 25)
                          (numeric_cast_int h (width (screen s))) 25 0,
                        Box, WMove 1 2, WPrintw ''Memory:'' [], WMove 2 1,
                        WHline (numeric_cast_int h (width (screen s)) - 2)];
            s = (case Monitor_dump (monitor s) of
                   None \<Rightarrow> s
                 | Some d \<Rightarrow>
                     if memorySize d > 0
                     then
                       let cols = width (screen s) - 4;
                           lines = height (screen s) - 29;
                           s = s\<lparr> totalMemory := memorySize d,
                                  memoryBytesPerLine := cols div 4 - 5,
                                  memoryLines := lines \<rparr>;
                           size = memoryBytesPerLine s * lines;
                           offset = memoryOffset s;
                           mem = readMemory d offset size
                       in emit s
                            (hexRows h (memoryBytesPerLine s) 0 2 offset mem
                             @ [WMove (2 + 1) (numeric_cast_int h (memoryBytesPerLine s * 3) + 4 + 16),
                                WVline (numeric_cast_int h lines)]
                             @ asciiRows h (memoryBytesPerLine s) 0 2 mem)
                     else s)
        in emit s [Screen_refresh, WRefresh, DelWin])"

text \<open>The lambda given to \<^verbatim>\<open>onUpdate\<close> in \<^verbatim>\<open>_setup\<close>.\<close>

definition onUpdate :: "Helpers \<Rightarrow> UI_IMPL \<Rightarrow> UI_IMPL" where
  "onUpdate h s = drawMemory h (drawStack h (drawRegisters h (drawTitle h s)))"

subsection \<open>Events of a running controller\<close>

text \<open>
  What can happen to a controller after its construction: \<^verbatim>\<open>run()\<close> is called, the
  screen's loop calls one of the two callbacks, the terminal is resized, or one of the
  monitor's polling threads stores what it has fetched. A polling thread exists from
  \<^verbatim>\<open>Monitor::start\<close> until \<^verbatim>\<open>Monitor::stop\<close> has joined it.
\<close>

datatype UI_event =
    Run
  | Update
  | KeyPress int
  | Resize size_t size_t
  | Poll_registers "Registers option"
  | Poll_stack "StackEntry list"
  | Poll_dump "CoreDump option"
  | Poll_live bool

definition poll :: "thread \<Rightarrow> (Monitor_IMPL \<Rightarrow> Monitor_IMPL) \<Rightarrow> UI_IMPL \<Rightarrow> UI_IMPL" where
  "poll t store s =
     (if t \<in> set (threads (monitor s)) then s\<lparr> monitor := store (monitor s) \<rparr> else s)"

fun UI_step :: "Helpers \<Rightarrow> UI_IMPL \<Rightarrow> UI_event \<Rightarrow> UI_IMPL" where
  "UI_step h s Run = UI_run s"
| "UI_step h s Update = onUpdate h s"
| "UI_step h s (KeyPress key) = onKeyPress s key"
| "UI_step h s (Resize w l) = s\<lparr> screen := \<lparr> width = w, height = l \<rparr> \<rparr>"
| "UI_step h s (Poll_registers regs) = poll UpdateRegisters (\<lambda>m. m\<lparr> registers := regs \<rparr>) s"
| "UI_step h s (Poll_stack st) = poll UpdateStack (\<lambda>m. m\<lparr> stack := st \<rparr>) s"
| "UI_step h s (Poll_dump d) = poll UpdateMemory (\<lambda>m. m\<lparr> dump := d \<rparr>) s"
| "UI_step h s (Poll_live l) = poll UpdateLiveStatus (\<lambda>m. m\<lparr> live := l \<rparr>) s"

fun UI_events :: "Helpers \<Rightarrow> UI_IMPL \<Rightarrow> UI_event list \<Rightarrow> UI_IMPL" where
  "UI_events h s [] = s"
| "UI_events h s (e # es) = UI_events h (UI_step h s e) es"

text \<open>The invariant of the viewport that the specification states.\<close>

definition viewport_inv :: "UI_IMPL \<Rightarrow> bool" where
  "viewport_inv s =
     (if totalMemory s = 0 then memoryOffset s = 0 else memoryOffset s < totalMemory s)"

subsection \<open>Auxiliary notions for the statements\<close>

text \<open>The four handles that \<^verbatim>\<open>Monitor::start\<close> pushes, in the order of the pushes.\<close>

definition pollers :: "thread list" where
  "pollers = [UpdateRegisters, UpdateStack, UpdateMemory, UpdateLiveStatus]"

text \<open>
  The assignments to the viewport members inside \<^verbatim>\<open>_drawMemory\<close>, taken alone: they are
  reached when neither size test returns early and the dump is present and not empty.
\<close>

definition refreshViewport :: "UI_IMPL \<Rightarrow> UI_IMPL" where
  "refreshViewport s =
     (case Monitor_dump (monitor s) of
        None \<Rightarrow> s
      | Some d \<Rightarrow>
          if \<not> (width (screen s) < 30 \<or> height (screen s) < 35) \<and> 0 < memorySize d
          then s\<lparr> totalMemory := memorySize d,
                 memoryBytesPerLine := (width (screen s) - 4) div 4 - 5,
                 memoryLines := height (screen s) - 29 \<rparr>
          else s)"

text \<open>
  Concrete collaborators for the closed examples below: helpers that keep the value of
  what they cast, upper-case ASCII letters and print sixteen hexadecimal digits, the
  character classes of the C locale, and a dump of \<open>n\<close> zero bytes.
\<close>

fun hexDigits :: "nat \<Rightarrow> nat \<Rightarrow> string" where
  "hexDigits 0 v = []"
| "hexDigits (Suc k) v = hexDigits k (v div 16) @ [''0123456789ABCDEF'' ! (v mod 16)]"

definition example_Helpers :: Helpers where
  "example_Helpers =
     \<lparr> numeric_cast_int = uint,
       numeric_cast_byte = uint,
       toUpper = map (\<lambda>c. if 97 \<le> (of_char c :: nat) \<and> (of_char c :: nat) \<le> 122
                           then char_of ((of_char c :: nat) - 32) else c),
       toHex = (\<lambda>v. hexDigits 16 (unat v)),
       isprint = (\<lambda>b. 32 \<le> b \<and> b \<le> 126),
       isspace = (\<lambda>b. b = 32 \<or> (9 \<le> b \<and> b \<le> 13)) \<rparr>"

definition zeroDump :: "nat \<Rightarrow> CoreDump" where
  "zeroDump n =
     \<lparr> memorySize = of_nat n,
       readMemory = (\<lambda>off size. replicate (min (unat size) (n - unat off)) 0) \<rparr>"

text \<open>
  A controller for a running machine on a terminal of 200 columns and 40 lines, after
  \<^verbatim>\<open>run()\<close> and after the memory poller has stored a dump of 100 bytes.
\<close>

definition example_UI :: UI_IMPL where
  "example_UI =
     UI_events example_Helpers (UI_IMPL_new [''vm''] \<lparr> width = 200, height = 40 \<rparr> ''vm'')
       [Run, Poll_dump (Some (zeroDump 100))]"

text \<open>
  A run of that controller: the panel is drawn, the user scrolls down twice, and the
  poller then stores a dump of 50 bytes.
\<close>

definition shrinking_run :: "UI_event list" where
  "shrinking_run =
     [Run, Poll_dump (Some (zeroDump 100)), Update,
      KeyPress (of_char CHR ''s''), KeyPress (of_char CHR ''s''),
      Poll_dump (Some (zeroDump 50))]"

text \<open>
  Whether, in the course of the events \<open>es\<close> from the state \<open>s\<close>, the memory panel has
  drawn a dump that is not empty: some \<open>Update\<close> came when neither size test of
  \<^verbatim>\<open>_drawMemory\<close> returned early and the dump was present with a positive size.
\<close>

fun dumpDrawn :: "Helpers \<Rightarrow> UI_IMPL \<Rightarrow> UI_event list \<Rightarrow> bool" where
  "dumpDrawn h s [] = False"
| "dumpDrawn h s (e # es) =
     ((e = Update \<and> \<not> (width (screen s) < 30 \<or> height (screen s) < 35)
         \<and> (case Monitor_dump (monitor s) of None \<Rightarrow> False | Some d \<Rightarrow> 0 < memorySize d))
      \<or> dumpDrawn h (UI_step h s e) es)"

text \<open>The viewport as the constructor leaves it: all four members are 0.\<close>

definition initialViewport :: "UI_IMPL \<Rightarrow> bool" where
  "initialViewport s \<longleftrightarrow>
     memoryOffset s = 0 \<and> memoryBytesPerLine s = 0 \<and> memoryLines s = 0 \<and> totalMemory s = 0"

section \<open>The snapshot store\<close>

subsection \<open>Start and stop\<close>

lemma Monitor_calls_snoc:
  "Monitor_calls m (cs @ [c]) = Monitor_apply (Monitor_calls m cs) c"
  by (induction cs arbitrary: m) simp_all

lemma running_Monitor_apply: "running (Monitor_apply m c) = (c = Start)"
  by (cases c) (simp_all add: Monitor_start_def Monitor_stop_def)

lemma running_Monitor_calls:
  "running (Monitor_calls m cs) = (if cs = [] then running m else last cs = Start)"
  by (induction cs rule: rev_induct) (simp_all add: Monitor_calls_snoc running_Monitor_apply)

lemma threads_Monitor_apply:
  "threads m = (if running m then pollers else []) \<Longrightarrow>
   threads (Monitor_apply m c) = (if running (Monitor_apply m c) then pollers else [])"
  by (cases c) (simp_all add: Monitor_start_def Monitor_stop_def pollers_def)

lemma threads_Monitor_calls:
  "threads m = (if running m then pollers else []) \<Longrightarrow>
   threads (Monitor_calls m cs) = (if running (Monitor_calls m cs) then pollers else [])"
  by (induction cs arbitrary: m) (simp_all add: threads_Monitor_apply)

lemma stop_Monitor_calls:
  "cs \<noteq> [] \<Longrightarrow> \<not> running (Monitor_calls m cs) \<Longrightarrow> stop (Monitor_calls m cs)"
proof (induction cs rule: rev_induct)
  case Nil
  then show ?case by simp
next
  case (snoc c cs)
  from snoc.prems(2) have "c = Stop"
    using running_Monitor_apply [of "Monitor_calls m cs" c]
    by (cases c) (simp_all add: Monitor_calls_snoc)
  then show ?case
    by (simp add: Monitor_calls_snoc Monitor_stop_def)
qed

lemma Monitor_stop_fixed:
  "\<not> running m \<Longrightarrow> stop m \<Longrightarrow> threads m = [] \<Longrightarrow> Monitor_stop m = m"
  by (simp add: Monitor_stop_def)

lemma Monitor_handles_new:
  "threads (Monitor_IMPL_new runningVMs name)
     = (if running (Monitor_IMPL_new runningVMs name) then pollers else [])"
  by (simp add: Monitor_IMPL_new_def)

lemma Monitor_handles_copy:
  "threads (Monitor_IMPL_copy src) = (if running (Monitor_IMPL_copy src) then pollers else [])"
  by (simp add: Monitor_IMPL_copy_def)

lemma Monitor_handles_store:
  "threads (m\<lparr> registers := r, stack := st, dump := d, live := l \<rparr>)
     = (if running (m\<lparr> registers := r, stack := st, dump := d, live := l \<rparr>) then pollers else [])
   \<longleftrightarrow> threads m = (if running m then pollers else [])"
  by simp

lemma Monitor_apply_after_stop:
  "\<not> running m \<Longrightarrow> threads m = [] \<Longrightarrow> Monitor_apply (Monitor_stop m) c = Monitor_apply m c"
  by (cases c) (simp_all add: Monitor_start_def Monitor_stop_def)

text \<open>
  Claim C1. Let \<open>m0\<close> be any monitor that holds the four polling handles if it is running
  and none if it is not: a new one, a copy, or one whose snapshots the pollers have
  written. Take any sequence of \<^verbatim>\<open>start()\<close> and \<^verbatim>\<open>stop()\<close> calls on it and let \<open>m\<close> be
  the state it leads to. The monitor is running exactly when the last call is
  \<^verbatim>\<open>start()\<close> (when the sequence is empty, when \<open>m0\<close> was running), and it holds the four
  handles exactly then. \<^verbatim>\<open>start()\<close> on a running monitor changes nothing; on a monitor
  that is not running it clears the stop flag, sets the running flag and leaves exactly
  the four polling handles in the monitor. \<^verbatim>\<open>stop()\<close> empties the handles, sets the stop
  flag and clears the running flag. A \<^verbatim>\<open>stop()\<close> on a monitor that is not running is a
  no-op: the running flag, the handles, the name, what every accessor returns and the
  copy of the monitor are what they were, and any call that follows leads to the same
  state as it would have without that \<^verbatim>\<open>stop()\<close>. The one member it can write is the
  stop flag, which it sets as every \<^verbatim>\<open>stop()\<close> does; when the flag is set already, as
  after any earlier call, the state as a whole stays as it is.
\<close>

theorem Monitor_start_stop_lifecycle:
  fixes m0 :: Monitor_IMPL and cs :: "Monitor_call list"
  assumes "threads m0 =
    (if running m0 then [UpdateRegisters, UpdateStack, UpdateMemory, UpdateLiveStatus] else [])"
  defines "m \<equiv> Monitor_calls m0 cs"
  shows "(running m \<longleftrightarrow> (if cs = [] then running m0 else last cs = Start))
       \<and> threads m =
           (if running m then [UpdateRegisters, UpdateStack, UpdateMemory, UpdateLiveStatus] else [])
       \<and> (running m \<longrightarrow> Monitor_start m = m)
       \<and> (\<not> running m \<longrightarrow>
            Monitor_start m =
              m\<lparr> stop := False, running := True,
                 threads := [UpdateRegisters, UpdateStack, UpdateMemory, UpdateLiveStatus] \<rparr>)
       \<and> Monitor_stop m = m\<lparr> threads := [], stop := True, running := False \<rparr>
       \<and> (\<not> running m \<longrightarrow>
            running (Monitor_stop m) = running m
            \<and> threads (Monitor_stop m) = threads m
            \<and> vmName (Monitor_stop m) = vmName m
            \<and> Monitor_live (Monitor_stop m) = Monitor_live m
            \<and> Monitor_registers (Monitor_stop m) = Monitor_registers m
            \<and> Monitor_stack (Monitor_stop m) = Monitor_stack m
            \<and> Monitor_dump (Monitor_stop m) = Monitor_dump m
            \<and> Monitor_IMPL_copy (Monitor_stop m) = Monitor_IMPL_copy m
            \<and> Monitor_calls (Monitor_stop m) (c # cs') = Monitor_calls m (c # cs')
            \<and> Monitor_stop m = m\<lparr> stop := True \<rparr>)
       \<and> (\<not> running m \<and> stop m \<longrightarrow> Monitor_stop m = m)
       \<and> (\<not> running m \<and> cs \<noteq> [] \<longrightarrow> Monitor_stop m = m)"
proof -
  from assms(1) have m0: "threads m0 = (if running m0 then pollers else [])"
    by (simp add: pollers_def)
  have thr: "threads m = (if running m then pollers else [])"
    unfolding m_def by (rule threads_Monitor_calls [OF m0])
  have run: "running m \<longleftrightarrow> (if cs = [] then running m0 else last cs = Start)"
    unfolding m_def by (rule running_Monitor_calls)
  have a: "running m \<longrightarrow> Monitor_start m = m"
    by (simp add: Monitor_start_def)
  have b: "\<not> running m \<longrightarrow>
            Monitor_start m =
              m\<lparr> stop := False, running := True,
                 threads := [UpdateRegisters, UpdateStack, UpdateMemory, UpdateLiveStatus] \<rparr>"
    using thr by (simp add: Monitor_start_def)
  have c: "Monitor_stop m = m\<lparr> threads := [], stop := True, running := False \<rparr>"
    by (simp add: Monitor_stop_def)
  have d: "running (Monitor_stop m) = running m
            \<and> threads (Monitor_stop m) = threads m
            \<and> vmName (Monitor_stop m) = vmName m
            \<and> Monitor_live (Monitor_stop m) = Monitor_live m
            \<and> Monitor_registers (Monitor_stop m) = Monitor_registers m
            \<and> Monitor_stack (Monitor_stop m) = Monitor_stack m
            \<and> Monitor_dump (Monitor_stop m) = Monitor_dump m
            \<and> Monitor_IMPL_copy (Monitor_stop m) = Monitor_IMPL_copy m
            \<and> Monitor_calls (Monitor_stop m) (c # cs') = Monitor_calls m (c # cs')
            \<and> Monitor_stop m = m\<lparr> stop := True \<rparr>"
    if nr: "\<not> running m"
  proof -
    from nr thr have t: "threads m = []" by simp
    from nr t have "Monitor_apply (Monitor_stop m) c = Monitor_apply m c"
      by (rule Monitor_apply_after_stop)
    then have "Monitor_calls (Monitor_stop m) (c # cs') = Monitor_calls m (c # cs')"
      by simp
    with nr t show ?thesis
      by (simp add: Monitor_stop_def Monitor_live_def Monitor_registers_def Monitor_stack_def
            Monitor_dump_def Monitor_IMPL_copy_def)
  qed
  have e: "\<not> running m \<and> stop m \<longrightarrow> Monitor_stop m = m"
    using thr by (simp add: Monitor_stop_fixed)
  have f: "\<not> running m \<and> cs \<noteq> [] \<longrightarrow> Monitor_stop m = m"
  proof
    assume h: "\<not> running m \<and> cs \<noteq> []"
    then have "stop m" unfolding m_def by (simp add: stop_Monitor_calls)
    with h thr show "Monitor_stop m = m" by (simp add: Monitor_stop_fixed)
  qed
  from thr have thr': "threads m =
      (if running m then [UpdateRegisters, UpdateStack, UpdateMemory, UpdateLiveStatus] else [])"
    by (simp add: pollers_def)
  from run thr' a b c d e f show ?thesis by blast
qed

text \<open>
  The theorem at a new monitor, whose handles are as the theorem asks: after
  \<open>[Start, Start]\<close> it is running and a further \<^verbatim>\<open>start()\<close> changes nothing; after
  \<open>[Start, Stop]\<close> it is stopped with the stop flag set and a further \<^verbatim>\<open>stop()\<close> changes
  nothing; before any call a \<^verbatim>\<open>stop()\<close> leaves what \<^verbatim>\<open>dump()\<close> returns and the copy as
  they are, and a \<^verbatim>\<open>start()\<close> after it leads where a \<^verbatim>\<open>start()\<close> alone leads.
\<close>

theorem Monitor_start_stop_lifecycle_witness:
  "threads (Monitor_IMPL_new [''vm''] ''vm'')
     = (if running (Monitor_IMPL_new [''vm''] ''vm'')
        then [UpdateRegisters, UpdateStack, UpdateMemory, UpdateLiveStatus] else [])
   \<and> running (Monitor_calls (Monitor_IMPL_new [''vm''] ''vm'') [Start, Start])
   \<and> Monitor_start (Monitor_calls (Monitor_IMPL_new [''vm''] ''vm'') [Start, Start])
       = Monitor_calls (Monitor_IMPL_new [''vm''] ''vm'') [Start, Start]
   \<and> \<not> running (Monitor_calls (Monitor_IMPL_new [''vm''] ''vm'') [Start, Stop])
   \<and> stop (Monitor_calls (Monitor_IMPL_new [''vm''] ''vm'') [Start, Stop])
   \<and> [Start, Stop] \<noteq> []
   \<and> Monitor_stop (Monitor_calls (Monitor_IMPL_new [''vm''] ''vm'') [Start, Stop])
       = Monitor_calls (Monitor_IMPL_new [''vm''] ''vm'') [Start, Stop]
   \<and> \<not> running (Monitor_calls (Monitor_IMPL_new [''vm''] ''vm'') [])
   \<and> Monitor_dump (Monitor_stop (Monitor_calls (Monitor_IMPL_new [''vm''] ''vm'') []))
       = Monitor_dump (Monitor_calls (Monitor_IMPL_new [''vm''] ''vm'') [])
   \<and> Monitor_IMPL_copy (Monitor_stop (Monitor_calls (Monitor_IMPL_new [''vm''] ''vm'') []))
       = Monitor_IMPL_copy (Monitor_calls (Monitor_IMPL_new [''vm''] ''vm'') [])
   \<and> Monitor_calls (Monitor_stop (Monitor_calls (Monitor_IMPL_new [''vm''] ''vm'') [])) [Start]
       = Monitor_calls (Monitor_calls (Monitor_IMPL_new [''vm''] ''vm'') []) [Start]"
proof -
  have h: "threads (Monitor_IMPL_new [''vm''] ''vm'')
     = (if running (Monitor_IMPL_new [''vm''] ''vm'')
        then [UpdateRegisters, UpdateStack, UpdateMemory, UpdateLiveStatus] else [])"
    by (simp add: Monitor_IMPL_new_def)
  have r1: "running (Monitor_calls (Monitor_IMPL_new [''vm''] ''vm'') [Start, Start])"
    and r2: "\<not> running (Monitor_calls (Monitor_IMPL_new [''vm''] ''vm'') [Start, Stop])"
    and r3: "stop (Monitor_calls (Monitor_IMPL_new [''vm''] ''vm'') [Start, Stop])"
    and r4: "\<not> running (Monitor_calls (Monitor_IMPL_new [''vm''] ''vm'') [])"
    by (simp_all add: Monitor_IMPL_new_def Monitor_start_def Monitor_stop_def)
  have a: "Monitor_start (Monitor_calls (Monitor_IMPL_new [''vm''] ''vm'') [Start, Start])
       = Monitor_calls (Monitor_IMPL_new [''vm''] ''vm'') [Start, Start]"
    using Monitor_start_stop_lifecycle [OF h, where cs = "[Start, Start]"] r1 by blast
  have b: "Monitor_stop (Monitor_calls (Monitor_IMPL_new [''vm''] ''vm'') [Start, Stop])
       = Monitor_calls (Monitor_IMPL_new [''vm''] ''vm'') [Start, Stop]"
    using Monitor_start_stop_lifecycle [OF h, where cs = "[Start, Stop]"] r2 r3 by blast
  have c: "Monitor_dump (Monitor_stop (Monitor_calls (Monitor_IMPL_new [''vm''] ''vm'') []))
       = Monitor_dump (Monitor_calls (Monitor_IMPL_new [''vm''] ''vm'') [])
   \<and> Monitor_IMPL_copy (Monitor_stop (Monitor_calls (Monitor_IMPL_new [''vm''] ''vm'') []))
       = Monitor_IMPL_copy (Monitor_calls (Monitor_IMPL_new [''vm''] ''vm'') [])
   \<and> Monitor_calls (Monitor_stop (Monitor_calls (Monitor_IMPL_new [''vm''] ''vm'') [])) [Start]
       = Monitor_calls (Monitor_calls (Monitor_IMPL_new [''vm''] ''vm'') []) [Start]"
    using Monitor_start_stop_lifecycle [OF h, where cs = "[]" and c = Start and cs' = "[]"] r4
    by blast
  from h r1 r2 r3 r4 a b c show ?thesis by simp
qed

subsection \<open>Copy construction\<close>

text \<open>
  Claim C4. The copy of any monitor, running or not, reports \<^verbatim>\<open>live()\<close> as false, holds
  no thread handle, has the running flag and the stop flag false, and its
  \<^verbatim>\<open>registers()\<close>, \<^verbatim>\<open>stack()\<close> and \<^verbatim>\<open>dump()\<close> return what the source holds, and what
  the source's accessors return, at the copy.
\<close>

theorem Monitor_copy_is_stopped_clone:
  "Monitor_live (Monitor_IMPL_copy src) = False
   \<and> threads (Monitor_IMPL_copy src) = []
   \<and> running (Monitor_IMPL_copy src) = False
   \<and> stop (Monitor_IMPL_copy src) = False
   \<and> Monitor_registers (Monitor_IMPL_copy src) = Monitor_registers src
   \<and> Monitor_stack (Monitor_IMPL_copy src) = Monitor_stack src
   \<and> Monitor_dump (Monitor_IMPL_copy src) = Monitor_dump src
   \<and> Monitor_registers (Monitor_IMPL_copy src) = registers src
   \<and> Monitor_stack (Monitor_IMPL_copy src) = stack src
   \<and> Monitor_dump (Monitor_IMPL_copy src) = dump src"
  by (simp add: Monitor_IMPL_copy_def Monitor_live_def Monitor_registers_def
        Monitor_stack_def Monitor_dump_def)

text \<open>
  Claim C5, as the code has it. The copy takes the name of the machine, the register
  snapshot, the stack snapshot and the dump handle from the source. The liveness flag is
  not among the copied members: it is set to false, as the running flag and the stop
  flag are, and the copy holds no thread handle. So the copy does not depend on the
  source's liveness flag, running flag, stop flag or thread handles.
\<close>

theorem Monitor_copy_members:
  "vmName (Monitor_IMPL_copy src) = vmName src
   \<and> registers (Monitor_IMPL_copy src) = registers src
   \<and> stack (Monitor_IMPL_copy src) = stack src
   \<and> dump (Monitor_IMPL_copy src) = dump src
   \<and> live (Monitor_IMPL_copy src) = False
   \<and> running (Monitor_IMPL_copy src) = False
   \<and> stop (Monitor_IMPL_copy src) = False
   \<and> threads (Monitor_IMPL_copy src) = []
   \<and> Monitor_IMPL_copy (src\<lparr> live := l, running := r, stop := st, threads := ts \<rparr>)
       = Monitor_IMPL_copy src"
  by (simp add: Monitor_IMPL_copy_def)

text \<open>
  Claim C5 as it was stated fails on the monitor of a machine that is reported as
  running: its liveness flag is true, and the flag of its copy is false.
\<close>

theorem Monitor_copy_live_counterexample:
  "live (Monitor_IMPL_new [''vm''] ''vm'') = True
   \<and> live (Monitor_IMPL_copy (Monitor_IMPL_new [''vm''] ''vm''))
       \<noteq> live (Monitor_IMPL_new [''vm''] ''vm'')"
  by (simp add: Monitor_IMPL_copy_def Monitor_IMPL_new_def)

section \<open>The dashboard controller\<close>

subsection \<open>Recorded calls\<close>

lemma emit_fields [simp]:
  "ui_running (emit s cs) = ui_running s"
  "ui_vmName (emit s cs) = ui_vmName s"
  "screen (emit s cs) = screen s"
  "monitor (emit s cs) = monitor s"
  "memoryOffset (emit s cs) = memoryOffset s"
  "memoryBytesPerLine (emit s cs) = memoryBytesPerLine s"
  "memoryLines (emit s cs) = memoryLines s"
  "totalMemory (emit s cs) = totalMemory s"
  "calls (emit s cs) = calls s @ cs"
  by (simp_all add: emit_def)

lemma emit_emit: "emit (emit s cs) ds = emit s (cs @ ds)"
  by (simp add: emit_def)

lemma emit_Nil [simp]: "emit s [] = s"
  by (simp add: emit_def)

lemma emitsI: "x = emit s cs \<Longrightarrow> cs \<noteq> [] \<Longrightarrow> \<exists>cs. x = emit s cs \<and> cs \<noteq> []"
  by blast

lemma update_emit:
  "(emit s cs)\<lparr> totalMemory := t \<rparr> = emit (s\<lparr> totalMemory := t \<rparr>) cs"
  "(emit s cs)\<lparr> memoryBytesPerLine := p \<rparr> = emit (s\<lparr> memoryBytesPerLine := p \<rparr>) cs"
  "(emit s cs)\<lparr> memoryLines := l \<rparr> = emit (s\<lparr> memoryLines := l \<rparr>) cs"
  by (simp_all add: emit_def)

lemma calls_grow_iff: "x = emit s cs \<Longrightarrow> calls x \<noteq> calls s \<longleftrightarrow> cs \<noteq> []"
  by simp

subsection \<open>Arithmetic of the terminal size and of the offset\<close>

lemma size_t_sub4: "30 \<le> (w :: size_t) \<Longrightarrow> unat (w - 4) = unat w - 4"
  by (simp add: unat_sub word_le_nat_alt)

lemma bytesPerLine_unat:
  assumes "30 \<le> (w :: size_t)"
  shows "unat ((w - 4) div 4 - 5) = (unat w - 4) div 4 - 5" and "1 \<le> (w - 4) div 4 - 5"
proof -
  from assms have w: "30 \<le> unat w" by (simp add: word_le_nat_alt)
  have a: "unat (w - 4) = unat w - 4" using assms by (rule size_t_sub4)
  have b: "unat ((w - 4) div 4) = (unat w - 4) div 4" by (simp add: unat_div a)
  have c: "5 \<le> (w - 4) div 4" using w by (simp add: word_le_nat_alt b)
  show d: "unat ((w - 4) div 4 - 5) = (unat w - 4) div 4 - 5"
    using c by (simp add: unat_sub b)
  show "1 \<le> (w - 4) div 4 - 5" using w by (simp add: word_le_nat_alt d)
qed

lemma lines_unat:
  assumes "35 \<le> (l :: size_t)"
  shows "unat (l - 29) = unat l - 29"
  using assms by (simp add: unat_sub word_le_nat_alt)

lemma scrollUp_uint:
  "uint (if (o' :: size_t) > d then o' - d else 0) = max 0 (uint o' - uint d)"
  by (auto simp: word_less_def uint_sub_if' max_def not_less)

lemma no_wrap_mult:
  "unat (P :: size_t) * unat n < 2 ^ 64 \<Longrightarrow> unat (P * n) = unat P * unat n"
  by (simp add: unat_mult_lem [THEN iffD1])

lemma no_wrap_add:
  "unat (a :: size_t) + unat b < 2 ^ 64 \<Longrightarrow> unat (a + b) = unat a + unat b"
  by (simp add: unat_add_lem [THEN iffD1])

subsection \<open>What the panels change\<close>

lemma drawTitle_emit: "\<exists>cs. drawTitle h s = emit s cs \<and> cs \<noteq> []"
  by (rule emitsI, simp add: drawTitle_def, simp)

lemma drawRegisters_emit:
  "\<exists>cs. drawRegisters h s = emit s cs
        \<and> (cs \<noteq> [] \<longleftrightarrow> 30 \<le> width (screen s) \<and> 25 \<le> height (screen s))"
proof (cases "width (screen s) < 30 \<or> height (screen s) < 25")
  case True
  then have "drawRegisters h s = emit s []" by (simp add: drawRegisters_def)
  with True show ?thesis by (metis not_le)
next
  case False
  then have "\<exists>cs. drawRegisters h s = emit s cs \<and> cs \<noteq> []"
  proof (cases "Monitor_registers (monitor s)")
    case None
    with False show ?thesis
      by - (rule emitsI, simp add: drawRegisters_def Let_def emit_emit, simp)
  next
    case (Some regs)
    with False show ?thesis
      by - (rule emitsI, simp add: drawRegisters_def Let_def emit_emit, simp)
  qed
  with False show ?thesis by (metis not_le)
qed

lemma drawStack_emit:
  "\<exists>cs. drawStack h s = emit s cs
        \<and> (cs \<noteq> [] \<longleftrightarrow> 190 \<le> width (screen s) \<and> 25 \<le> height (screen s))"
proof (cases "width (screen s) < 190 \<or> height (screen s) < 25")
  case True
  then have "drawStack h s = emit s []" by (simp add: drawStack_def)
  with True show ?thesis by (metis not_le)
next
  case False
  then have "\<exists>cs. drawStack h s = emit s cs \<and> cs \<noteq> []"
    by - (rule emitsI, simp add: drawStack_def Let_def emit_emit, simp)
  with False show ?thesis by (metis not_le)
qed

lemma drawMemory_emit:
  "\<exists>cs. drawMemory h s = emit (refreshViewport s) cs
        \<and> (cs \<noteq> [] \<longleftrightarrow> 30 \<le> width (screen s) \<and> 35 \<le> height (screen s))"
proof (cases "width (screen s) < 30 \<or> height (screen s) < 35")
  case True
  then have "drawMemory h s = emit (refreshViewport s) []"
    by (auto simp: drawMemory_def refreshViewport_def split: option.splits)
  with True show ?thesis by (metis not_le)
next
  case False
  then have "\<exists>cs. drawMemory h s = emit (refreshViewport s) cs \<and> cs \<noteq> []"
  proof (cases "Monitor_dump (monitor s)")
    case None
    with False show ?thesis
      by - (rule emitsI, simp add: drawMemory_def refreshViewport_def Let_def emit_emit, simp)
  next
    case (Some d)
    show ?thesis
    proof (cases "0 < memorySize d")
      case True
      with False Some show ?thesis
        by - (rule emitsI, simp add: drawMemory_def refreshViewport_def Let_def emit_emit
            update_emit, simp)
    next
      case nonpos: False
      with False Some show ?thesis
        by - (rule emitsI, simp add: drawMemory_def refreshViewport_def Let_def emit_emit, simp)
    qed
  qed
  with False show ?thesis by (metis not_le)
qed

lemma refreshViewport_emit: "refreshViewport (emit s cs) = emit (refreshViewport s) cs"
  by (simp add: refreshViewport_def emit_def split: option.splits)

lemma onUpdate_emit: "\<exists>cs. onUpdate h s = emit (refreshViewport s) cs"
proof -
  obtain c1 where 1: "drawTitle h s = emit s c1"
    using drawTitle_emit [of h s] by blast
  obtain c2 where 2: "drawRegisters h (emit s c1) = emit (emit s c1) c2"
    using drawRegisters_emit [of h "emit s c1"] by blast
  obtain c3 where 3: "drawStack h (emit s (c1 @ c2)) = emit (emit s (c1 @ c2)) c3"
    using drawStack_emit [of h "emit s (c1 @ c2)"] by blast
  obtain c4 where 4: "drawMemory h (emit s (c1 @ c2 @ c3))
                      = emit (refreshViewport (emit s (c1 @ c2 @ c3))) c4"
    using drawMemory_emit [of h "emit s (c1 @ c2 @ c3)"] by blast
  have "onUpdate h s = emit (refreshViewport s) (c1 @ c2 @ c3 @ c4)"
    using 1 2 3 4 by (simp add: onUpdate_def emit_emit refreshViewport_emit)
  then show ?thesis ..
qed

lemma onUpdate_fields:
  "ui_running (onUpdate h s) = ui_running s"
  "ui_vmName (onUpdate h s) = ui_vmName s"
  "screen (onUpdate h s) = screen s"
  "monitor (onUpdate h s) = monitor s"
  "memoryOffset (onUpdate h s) = memoryOffset s"
  "memoryBytesPerLine (onUpdate h s) = memoryBytesPerLine (refreshViewport s)"
  "memoryLines (onUpdate h s) = memoryLines (refreshViewport s)"
  "totalMemory (onUpdate h s) = totalMemory (refreshViewport s)"
proof -
  obtain cs where e: "onUpdate h s = emit (refreshViewport s) cs"
    using onUpdate_emit [of h s] by blast
  show "ui_running (onUpdate h s) = ui_running s"
    "ui_vmName (onUpdate h s) = ui_vmName s"
    "screen (onUpdate h s) = screen s"
    "monitor (onUpdate h s) = monitor s"
    "memoryOffset (onUpdate h s) = memoryOffset s"
    "memoryBytesPerLine (onUpdate h s) = memoryBytesPerLine (refreshViewport s)"
    "memoryLines (onUpdate h s) = memoryLines (refreshViewport s)"
    "totalMemory (onUpdate h s) = totalMemory (refreshViewport s)"
    by (simp_all add: e refreshViewport_def split: option.splits)
qed

lemma drawMemory_fields:
  "memoryOffset (drawMemory h s) = memoryOffset s"
  "memoryBytesPerLine (drawMemory h s) = memoryBytesPerLine (refreshViewport s)"
  "memoryLines (drawMemory h s) = memoryLines (refreshViewport s)"
  "totalMemory (drawMemory h s) = totalMemory (refreshViewport s)"
proof -
  obtain cs where e: "drawMemory h s = emit (refreshViewport s) cs"
    using drawMemory_emit [of h s] by blast
  show "memoryOffset (drawMemory h s) = memoryOffset s"
    "memoryBytesPerLine (drawMemory h s) = memoryBytesPerLine (refreshViewport s)"
    "memoryLines (drawMemory h s) = memoryLines (refreshViewport s)"
    "totalMemory (drawMemory h s) = totalMemory (refreshViewport s)"
    by (simp_all add: e refreshViewport_def split: option.splits)
qed

lemma refreshViewport_total:
  "totalMemory (refreshViewport s) =
     (case Monitor_dump (monitor s) of
        None \<Rightarrow> totalMemory s
      | Some d \<Rightarrow> if \<not> (width (screen s) < 30 \<or> height (screen s) < 35) \<and> 0 < memorySize d
                  then memorySize d else totalMemory s)"
  by (simp add: refreshViewport_def split: option.splits)

lemma drawRegisters_draws:
  "calls (drawRegisters h s) \<noteq> calls s \<longleftrightarrow> 30 \<le> width (screen s) \<and> 25 \<le> height (screen s)"
  using drawRegisters_emit [of h s] by (auto simp: calls_grow_iff)

lemma drawStack_draws:
  "calls (drawStack h s) \<noteq> calls s \<longleftrightarrow> 190 \<le> width (screen s) \<and> 25 \<le> height (screen s)"
  using drawStack_emit [of h s] by (auto simp: calls_grow_iff)

lemma drawMemory_draws:
  "calls (drawMemory h s) \<noteq> calls s \<longleftrightarrow> 30 \<le> width (screen s) \<and> 35 \<le> height (screen s)"
proof -
  have "calls (refreshViewport s) = calls s"
    by (simp add: refreshViewport_def split: option.splits)
  with drawMemory_emit [of h s] show ?thesis by auto
qed

lemma draw_skipped:
  "width (screen s) < 30 \<or> height (screen s) < 25 \<Longrightarrow> drawRegisters h s = s"
  "width (screen s) < 190 \<or> height (screen s) < 25 \<Longrightarrow> drawStack h s = s"
  "width (screen s) < 30 \<or> height (screen s) < 35 \<Longrightarrow> drawMemory h s = s"
  by (simp_all add: drawRegisters_def drawStack_def drawMemory_def)

lemma drawTitle_draws: "calls (drawTitle h s) \<noteq> calls s"
  by (simp add: drawTitle_def)

lemma drawTitle_screen: "screen (drawTitle h s) = screen s"
  by (simp add: drawTitle_def)

subsection \<open>What the other events change\<close>

lemma memoryScrollDown_offset:
  "memoryOffset (memoryScrollDown s n) =
     (if memoryOffset s + memoryBytesPerLine s * n < totalMemory s
      then memoryOffset s + memoryBytesPerLine s * n else memoryOffset s)"
  by (simp add: memoryScrollDown_def)

lemma memoryScrollUp_offset:
  "memoryOffset (memoryScrollUp s n) =
     (if memoryOffset s > memoryBytesPerLine s * n
      then memoryOffset s - memoryBytesPerLine s * n else 0)"
  by (simp add: memoryScrollUp_def)

lemma memoryScroll_others:
  "memoryBytesPerLine (memoryScrollDown s n) = memoryBytesPerLine s"
  "totalMemory (memoryScrollDown s n) = totalMemory s"
  "memoryLines (memoryScrollDown s n) = memoryLines s"
  "memoryBytesPerLine (memoryScrollUp s n) = memoryBytesPerLine s"
  "totalMemory (memoryScrollUp s n) = totalMemory s"
  "memoryLines (memoryScrollUp s n) = memoryLines s"
  by (simp_all add: memoryScrollDown_def memoryScrollUp_def)

lemma onKeyPress_viewport:
  "memoryBytesPerLine (onKeyPress s key) = memoryBytesPerLine s"
  "memoryLines (onKeyPress s key) = memoryLines s"
  "totalMemory (onKeyPress s key) = totalMemory s"
  by (simp_all add: onKeyPress_def memoryPageUp_def memoryPageDown_def memoryScroll_others)

lemma UI_run_viewport:
  "memoryOffset (UI_run s) = memoryOffset s"
  "memoryBytesPerLine (UI_run s) = memoryBytesPerLine s"
  "memoryLines (UI_run s) = memoryLines s"
  "totalMemory (UI_run s) = totalMemory s"
  by (simp_all add: UI_run_def)

lemma poll_viewport:
  "memoryOffset (poll t f s) = memoryOffset s"
  "memoryBytesPerLine (poll t f s) = memoryBytesPerLine s"
  "memoryLines (poll t f s) = memoryLines s"
  "totalMemory (poll t f s) = totalMemory s"
  by (simp_all add: poll_def)

lemma example_UI_fields:
  "screen example_UI = \<lparr> width = 200, height = 40 \<rparr>"
  "Monitor_dump (monitor example_UI) = Some (zeroDump 100)"
  "memoryOffset example_UI = 0"
  "memoryBytesPerLine example_UI = 0"
  "memoryLines example_UI = 0"
  "totalMemory example_UI = 0"
  by (simp_all add: example_UI_def UI_IMPL_new_def Monitor_IMPL_new_def UI_run_def
        Monitor_start_def poll_def Monitor_dump_def emit_def)

subsection \<open>Scrolling\<close>

text \<open>
  Claim C2. Let \<open>P\<close> be the bytes per line, \<open>T\<close> the total memory size and \<open>off\<close> the
  offset of any viewport state. \<^verbatim>\<open>_memoryScrollDown( n )\<close> sets the offset to
  \<open>off + P * n\<close> if \<open>off + P * n < T\<close> and leaves it unchanged otherwise;
  \<^verbatim>\<open>_memoryScrollUp( n )\<close> sets it to \<open>off - P * n\<close> if that difference, taken over the
  integers, is not negative, and to 0 otherwise. The sum and the product are those of
  \<^verbatim>\<open>size_t\<close>, as the code computes them; where \<open>off + P * n\<close> stays within the range of
  \<^verbatim>\<open>size_t\<close>, both statements also hold with the sum and the product taken over the
  integers. With \<open>P = 16\<close> and \<open>T = 100\<close>, from offset 0: one scroll down by one line gives
  16, six give 96, the seventh leaves 96, a scroll up by one line then gives 80, and the
  key \<^verbatim>\<open>g\<close> gives 0.
\<close>

theorem memoryScroll_offsets:
  fixes s :: UI_IMPL and n :: size_t
  defines "P \<equiv> memoryBytesPerLine s" and "T \<equiv> totalMemory s" and "off \<equiv> memoryOffset s"
  defines "s0 \<equiv> s\<lparr> memoryBytesPerLine := 16, totalMemory := 100, memoryOffset := 0 \<rparr>"
  shows
   "memoryOffset (memoryScrollDown s n) = (if off + P * n < T then off + P * n else off)
    \<and> uint (memoryOffset (memoryScrollUp s n))
        = (if 0 \<le> uint off - uint (P * n) then uint off - uint (P * n) else 0)
    \<and> (unat off + unat P * unat n < 2 ^ 64 \<longrightarrow>
         int (unat (memoryOffset (memoryScrollDown s n)))
           = (if int (unat off) + int (unat P) * int (unat n) < int (unat T)
              then int (unat off) + int (unat P) * int (unat n) else int (unat off))
         \<and> int (unat (memoryOffset (memoryScrollUp s n)))
           = (if 0 \<le> int (unat off) - int (unat P) * int (unat n)
              then int (unat off) - int (unat P) * int (unat n) else 0))
    \<and> memoryOffset (memoryScrollDown s0 1) = 16
    \<and> memoryOffset (((\<lambda>s. memoryScrollDown s 1) ^^ 6) s0) = 96
    \<and> memoryOffset (((\<lambda>s. memoryScrollDown s 1) ^^ 7) s0) = 96
    \<and> memoryOffset (memoryScrollUp (((\<lambda>s. memoryScrollDown s 1) ^^ 7) s0) 1) = 80
    \<and> memoryOffset (onKeyPress (memoryScrollUp (((\<lambda>s. memoryScrollDown s 1) ^^ 7) s0) 1)
                        (of_char CHR ''g'')) = 0"
proof -
  have down: "memoryOffset (memoryScrollDown s n) = (if off + P * n < T then off + P * n else off)"
    by (simp add: memoryScrollDown_offset P_def T_def off_def)
  have up: "uint (memoryOffset (memoryScrollUp s n))
        = (if 0 \<le> uint off - uint (P * n) then uint off - uint (P * n) else 0)"
    unfolding P_def off_def memoryScrollUp_offset
    using scrollUp_uint [of "memoryBytesPerLine s * n" "memoryOffset s"]
    by (simp add: max_def)
  have ideal: "int (unat (memoryOffset (memoryScrollDown s n)))
           = (if int (unat off) + int (unat P) * int (unat n) < int (unat T)
              then int (unat off) + int (unat P) * int (unat n) else int (unat off))
         \<and> int (unat (memoryOffset (memoryScrollUp s n)))
           = (if 0 \<le> int (unat off) - int (unat P) * int (unat n)
              then int (unat off) - int (unat P) * int (unat n) else 0)"
    if nw: "unat off + unat P * unat n < 2 ^ 64"
  proof -
    from nw have m: "unat (P * n) = unat P * unat n"
      by (intro no_wrap_mult) simp
    from nw m have a: "unat (off + P * n) = unat off + unat P * unat n"
      using no_wrap_add [of off "P * n"] by simp
    have d: "unat (memoryOffset (memoryScrollDown s n))
             = (if unat off + unat P * unat n < unat T
                then unat off + unat P * unat n else unat off)"
    proof -
      have lt: "(off + P * n < T) = (unat off + unat P * unat n < unat T)"
        by (simp only: word_less_nat_alt a)
      show ?thesis
      proof (cases "off + P * n < T")
        case True
        with lt a show ?thesis by (simp only: down if_True)
      next
        case False
        with lt show ?thesis by (simp only: down if_False)
      qed
    qed
    have u: "int (unat (memoryOffset (memoryScrollUp s n)))
             = (if 0 \<le> int (unat off) - int (unat P) * int (unat n)
                then int (unat off) - int (unat P) * int (unat n) else 0)"
      using up by (simp only: uint_nat m of_nat_mult)
    have d': "int (unat (memoryOffset (memoryScrollDown s n)))
           = (if int (unat off) + int (unat P) * int (unat n) < int (unat T)
              then int (unat off) + int (unat P) * int (unat n) else int (unat off))"
      by (simp only: d of_nat_add [symmetric] of_nat_mult [symmetric] of_nat_less_iff if_distrib [of int])
    from d' u show ?thesis by (rule conjI)
  qed
  have s0: "memoryBytesPerLine s0 = 16" "totalMemory s0 = 100" "memoryOffset s0 = 0"
    by (simp_all add: s0_def)
  have ex1: "memoryOffset (memoryScrollDown s0 1) = 16"
    by (simp add: memoryScrollDown_offset s0)
  have six: "(f ^^ 6) x = f (f (f (f (f (f x)))))" for f :: "UI_IMPL \<Rightarrow> UI_IMPL" and x
    by (simp add: eval_nat_numeral)
  have seven: "(f ^^ 7) x = f ((f ^^ 6) x)" for f :: "UI_IMPL \<Rightarrow> UI_IMPL" and x
    by (simp add: eval_nat_numeral)
  have ex2: "memoryOffset (((\<lambda>s. memoryScrollDown s 1) ^^ 6) s0) = 96"
    by (simp add: six memoryScrollDown_offset memoryScroll_others s0)
  have ex3: "memoryOffset (((\<lambda>s. memoryScrollDown s 1) ^^ 7) s0) = 96"
    by (simp add: seven ex2 memoryScrollDown_offset memoryScroll_others six s0)
  have ex4: "memoryOffset (memoryScrollUp (((\<lambda>s. memoryScrollDown s 1) ^^ 7) s0) 1) = 80"
  proof -
    have "memoryBytesPerLine (((\<lambda>s. memoryScrollDown s 1) ^^ 7) s0) = 16"
      by (simp add: seven six memoryScroll_others s0)
    with ex3 show ?thesis by (simp add: memoryScrollUp_offset)
  qed
  have ex5: "memoryOffset (onKeyPress (memoryScrollUp (((\<lambda>s. memoryScrollDown s 1) ^^ 7) s0) 1)
                        (of_char CHR ''g'')) = 0"
    by (simp add: onKeyPress_def)
  from down up ideal ex1 ex2 ex3 ex4 ex5 show ?thesis by blast
qed

text \<open>
  The theorem at a state with \<open>P = 16\<close>, \<open>T = 100\<close> and offset 80, scrolled by one line:
  nothing wraps around, a scroll down gives 96 and a scroll up gives 64.
\<close>

theorem memoryScroll_offsets_witness:
  "unat (memoryOffset (UI_IMPL_new [] \<lparr> width = 200, height = 40 \<rparr> ''vm''
           \<lparr> memoryBytesPerLine := 16, totalMemory := 100, memoryOffset := 80 \<rparr>))
     + unat (memoryBytesPerLine (UI_IMPL_new [] \<lparr> width = 200, height = 40 \<rparr> ''vm''
           \<lparr> memoryBytesPerLine := 16, totalMemory := 100, memoryOffset := 80 \<rparr>)) * unat (1 :: size_t)
     < 2 ^ 64
   \<and> int (unat (memoryOffset (memoryScrollDown
         (UI_IMPL_new [] \<lparr> width = 200, height = 40 \<rparr> ''vm''
           \<lparr> memoryBytesPerLine := 16, totalMemory := 100, memoryOffset := 80 \<rparr>) 1))) = 96
   \<and> int (unat (memoryOffset (memoryScrollUp
         (UI_IMPL_new [] \<lparr> width = 200, height = 40 \<rparr> ''vm''
           \<lparr> memoryBytesPerLine := 16, totalMemory := 100, memoryOffset := 80 \<rparr>) 1))) = 64"
  using memoryScroll_offsets
    [of "UI_IMPL_new [] \<lparr> width = 200, height = 40 \<rparr> ''vm''
           \<lparr> memoryBytesPerLine := 16, totalMemory := 100, memoryOffset := 80 \<rparr>" 1]
  by simp

subsection \<open>The viewport invariant\<close>

lemma scrollDown_inv: "viewport_inv s \<Longrightarrow> viewport_inv (memoryScrollDown s n)"
  by (auto simp: viewport_inv_def memoryScrollDown_def word_less_nat_alt split: if_splits)

lemma scrollUp_inv: "viewport_inv s \<Longrightarrow> viewport_inv (memoryScrollUp s n)"
proof -
  assume i: "viewport_inv s"
  show ?thesis
  proof (cases "memoryBytesPerLine s * n < memoryOffset s")
    case True
    then have "memoryOffset s - memoryBytesPerLine s * n \<le> memoryOffset s"
      by (simp add: word_sub_le less_imp_le)
    with i True show ?thesis
      by (auto simp: viewport_inv_def memoryScrollUp_def split: if_splits)
  next
    case False
    then show ?thesis
      by (simp add: viewport_inv_def memoryScrollUp_def word_neq_0_conv)
  qed
qed

lemma onKeyPress_inv: "viewport_inv s \<Longrightarrow> viewport_inv (onKeyPress s key)"
  using scrollDown_inv scrollUp_inv
  by (auto simp: onKeyPress_def memoryPageUp_def memoryPageDown_def viewport_inv_def
       word_neq_0_conv)

lemma other_step_inv:
  "viewport_inv s \<Longrightarrow> e \<noteq> Update \<Longrightarrow> viewport_inv (UI_step h s e)"
proof (cases e)
  case (KeyPress key)
  assume "viewport_inv s"
  with KeyPress show ?thesis by (simp add: onKeyPress_inv)
qed (simp_all add: viewport_inv_def UI_run_viewport poll_viewport)

lemma update_inv:
  assumes "viewport_inv s"
    and "width (screen s) < 30 \<or> height (screen s) < 35 \<or> Monitor_dump (monitor s) = None
         \<or> (\<exists>d. Monitor_dump (monitor s) = Some d
                \<and> (memorySize d = 0 \<or> memoryOffset s < memorySize d))"
  shows "viewport_inv (onUpdate h s)"
proof (cases "Monitor_dump (monitor s)")
  case None
  with assms(1) show ?thesis
    by (simp add: viewport_inv_def onUpdate_fields refreshViewport_total)
next
  case (Some d)
  show ?thesis
  proof (cases "\<not> (width (screen s) < 30 \<or> height (screen s) < 35) \<and> 0 < memorySize d")
    case True
    with assms(2) Some have "memoryOffset s < memorySize d" by auto
    with True Some show ?thesis
      by (auto simp: viewport_inv_def onUpdate_fields refreshViewport_total)
  next
    case False
    with Some have "totalMemory (onUpdate h s) = totalMemory s"
      by (simp only: onUpdate_fields refreshViewport_total option.case if_False)
    with assms(1) show ?thesis
      by (simp add: viewport_inv_def onUpdate_fields(5))
  qed
qed

text \<open>
  Claim C3, as the code has it. The viewport invariant (the offset is below the total
  memory size, or both are 0) holds after construction. Every key, \<^verbatim>\<open>run()\<close>, a resize
  of the terminal and a write of a polling thread preserve it. A redraw never changes the
  offset, and sets the total memory size to the size of the current dump when the
  memory panel is drawn and the dump is present and not empty; so a redraw preserves the
  invariant when the panel is not drawn, when the dump is absent or empty, or when the
  size of the current dump exceeds the offset.
\<close>

theorem viewport_inv_steps:
  "viewport_inv (UI_IMPL_new runningVMs scr name)
   \<and> (viewport_inv s \<longrightarrow> viewport_inv (onKeyPress s key))
   \<and> (viewport_inv s \<and> e \<noteq> Update \<longrightarrow> viewport_inv (UI_step h s e))
   \<and> (viewport_inv s
        \<and> (width (screen s) < 30 \<or> height (screen s) < 35 \<or> Monitor_dump (monitor s) = None
            \<or> (\<exists>d. Monitor_dump (monitor s) = Some d
                   \<and> (memorySize d = 0 \<or> memoryOffset s < memorySize d)))
        \<longrightarrow> viewport_inv (onUpdate h s))
   \<and> memoryOffset (onUpdate h s) = memoryOffset s
   \<and> totalMemory (onUpdate h s) =
        (case Monitor_dump (monitor s) of
           None \<Rightarrow> totalMemory s
         | Some d \<Rightarrow> if \<not> (width (screen s) < 30 \<or> height (screen s) < 35) \<and> 0 < memorySize d
                     then memorySize d else totalMemory s)"
proof -
  have "viewport_inv (UI_IMPL_new runningVMs scr name)"
    by (simp add: viewport_inv_def UI_IMPL_new_def)
  moreover have "totalMemory (onUpdate h s) =
        (case Monitor_dump (monitor s) of
           None \<Rightarrow> totalMemory s
         | Some d \<Rightarrow> if \<not> (width (screen s) < 30 \<or> height (screen s) < 35) \<and> 0 < memorySize d
                     then memorySize d else totalMemory s)"
    by (simp only: onUpdate_fields refreshViewport_total)
  ultimately show ?thesis
    using onKeyPress_inv [of s key] other_step_inv [of s e h] update_inv [of s h]
      onUpdate_fields(5) [of h s]
    by blast
qed

text \<open>
  The theorem at \<open>example_UI\<close>, with the key \<^verbatim>\<open>s\<close>, a resize to 80 by 24 and a redraw of
  the dump of 100 bytes at offset 0.
\<close>

theorem viewport_inv_steps_witness:
  "viewport_inv example_UI
   \<and> viewport_inv (onKeyPress example_UI (of_char CHR ''s''))
   \<and> Resize 80 24 \<noteq> Update
   \<and> viewport_inv (UI_step example_Helpers example_UI (Resize 80 24))
   \<and> (\<exists>d. Monitor_dump (monitor example_UI) = Some d \<and> memoryOffset example_UI < memorySize d)
   \<and> viewport_inv (onUpdate example_Helpers example_UI)"
proof -
  have i: "viewport_inv example_UI"
    by (simp add: viewport_inv_def example_UI_fields)
  have d: "\<exists>d. Monitor_dump (monitor example_UI) = Some d \<and> memoryOffset example_UI < memorySize d"
    by (simp add: example_UI_fields zeroDump_def)
  from i d viewport_inv_steps [of "[''vm'']" "\<lparr> width = 200, height = 40 \<rparr>" "''vm''"
      example_UI "of_char CHR ''s''" "Resize 80 24" example_Helpers]
  show ?thesis by auto
qed

lemma shrinking_run_state:
  "memoryOffset (UI_events example_Helpers
       (UI_IMPL_new [''vm''] \<lparr> width = 200, height = 40 \<rparr> ''vm'') shrinking_run) = 88"
  "totalMemory (UI_events example_Helpers
       (UI_IMPL_new [''vm''] \<lparr> width = 200, height = 40 \<rparr> ''vm'') shrinking_run) = 100"
  "Monitor_dump (monitor (UI_events example_Helpers
       (UI_IMPL_new [''vm''] \<lparr> width = 200, height = 40 \<rparr> ''vm'') shrinking_run)) = Some (zeroDump 50)"
  "screen (UI_events example_Helpers
       (UI_IMPL_new [''vm''] \<lparr> width = 200, height = 40 \<rparr> ''vm'') shrinking_run)
     = \<lparr> width = 200, height = 40 \<rparr>"
  by (simp_all add: shrinking_run_def UI_IMPL_new_def Monitor_IMPL_new_def UI_run_def
        Monitor_start_def poll_def onUpdate_fields refreshViewport_def Monitor_dump_def
        zeroDump_def onKeyPress_def memoryScrollDown_def emit_def)

text \<open>
  Claim C3 as it was stated fails on \<open>shrinking_run\<close>: after it the offset is 88 and the
  total memory size 100, so the invariant holds; the dump in the monitor now has 50
  bytes, and the next redraw stores 50 as the total memory size and leaves the offset
  at 88.
\<close>

theorem viewport_inv_redraw_counterexample:
  "viewport_inv (UI_events example_Helpers
       (UI_IMPL_new [''vm''] \<lparr> width = 200, height = 40 \<rparr> ''vm'') shrinking_run)
   \<and> \<not> viewport_inv (UI_events example_Helpers
       (UI_IMPL_new [''vm''] \<lparr> width = 200, height = 40 \<rparr> ''vm'') (shrinking_run @ [Update]))"
proof -
  have snoc: "UI_events h s (es @ [e]) = UI_step h (UI_events h s es) e" for h s es e
    by (induction es arbitrary: s) simp_all
  show ?thesis
    by (simp add: snoc viewport_inv_def onUpdate_fields refreshViewport_total
          shrinking_run_state zeroDump_def)
qed

subsection \<open>run()\<close>

lemma ui_running_step: "ui_running (UI_step h s e) = ui_running s"
proof (cases e)
  case (KeyPress key)
  then show ?thesis
    by (simp add: onKeyPress_def memoryPageUp_def memoryPageDown_def memoryScrollUp_def
          memoryScrollDown_def)
qed (simp_all add: UI_run_def onUpdate_fields poll_def)

lemma ui_running_events: "ui_running (UI_events h s es) = ui_running s"
  by (induction es arbitrary: s) (simp_all add: ui_running_step)

text \<open>
  Claim C6 does not hold of the code. Let \<open>s\<close> be the state of a newly constructed
  controller after any events, \<^verbatim>\<open>run()\<close> among them. The member \<^verbatim>\<open>_running\<close> that
  \<^verbatim>\<open>run()\<close> tests is false in \<open>s\<close>, and it is false after \<^verbatim>\<open>run()\<close> as well: nothing
  ever sets it. So \<^verbatim>\<open>run()\<close> never returns early. It starts the monitor and then the
  screen, and a second \<^verbatim>\<open>run()\<close> starts the monitor and then the screen once more: the
  controller has made four calls, not two, and the state after two calls of \<^verbatim>\<open>run()\<close>
  is not the state after one.
\<close>

theorem UI_run_twice:
  "ui_running (UI_events h (UI_IMPL_new runningVMs scr name) es) = False
   \<and> ui_running (UI_run (UI_events h (UI_IMPL_new runningVMs scr name) es)) = False
   \<and> UI_run (UI_events h (UI_IMPL_new runningVMs scr name) es)
       = emit ((UI_events h (UI_IMPL_new runningVMs scr name) es)
                 \<lparr> monitor := Monitor_start
                     (monitor (UI_events h (UI_IMPL_new runningVMs scr name) es)) \<rparr>)
           [Monitor_started, Screen_start]
   \<and> calls (UI_run (UI_run (UI_events h (UI_IMPL_new runningVMs scr name) es)))
       = calls (UI_events h (UI_IMPL_new runningVMs scr name) es)
         @ [Monitor_started, Screen_start, Monitor_started, Screen_start]
   \<and> UI_run (UI_run (UI_events h (UI_IMPL_new runningVMs scr name) es))
       \<noteq> UI_run (UI_events h (UI_IMPL_new runningVMs scr name) es)
   \<and> calls (UI_events h (UI_IMPL_new runningVMs scr name) [Run, Run])
       = [Monitor_started, Screen_start, Monitor_started, Screen_start]"
proof -
  let ?s = "UI_events h (UI_IMPL_new runningVMs scr name) es"
  have r: "ui_running ?s = False"
    by (simp add: ui_running_events UI_IMPL_new_def)
  then have r': "ui_running (UI_run ?s) = False"
    by (simp add: UI_run_def)
  from r have one: "UI_run ?s
       = emit (?s\<lparr> monitor := Monitor_start (monitor ?s) \<rparr>) [Monitor_started, Screen_start]"
    by (simp add: UI_run_def emit_emit)
  from r r' have two: "calls (UI_run (UI_run ?s))
       = calls ?s @ [Monitor_started, Screen_start, Monitor_started, Screen_start]"
    by (simp add: UI_run_def)
  from r have "calls (UI_run ?s) = calls ?s @ [Monitor_started, Screen_start]"
    by (simp add: UI_run_def)
  with two have ne: "UI_run (UI_run ?s) \<noteq> UI_run ?s"
    by auto
  have ex: "calls (UI_events h (UI_IMPL_new runningVMs scr name) [Run, Run])
       = [Monitor_started, Screen_start, Monitor_started, Screen_start]"
    by (simp add: UI_run_def UI_IMPL_new_def)
  from r r' one two ne ex show ?thesis by simp
qed

subsection \<open>Keys\<close>

text \<open>
  Claim C8. The key \<^verbatim>\<open>q\<close> stops the monitor, which is not running and holds no thread
  afterwards, and then stops the screen; \<^verbatim>\<open>a\<close> scrolls up and \<^verbatim>\<open>s\<close> scrolls down by one
  line; \<^verbatim>\<open>d\<close> scrolls up and \<^verbatim>\<open>f\<close> scrolls down by the stored count of visible lines;
  \<^verbatim>\<open>g\<close> sets the offset to 0; any other key leaves the whole state as it is and makes no
  call.
\<close>

theorem onKeyPress_dispatch:
  "onKeyPress s (of_char CHR ''q'')
     = emit (s\<lparr> monitor := Monitor_stop (monitor s) \<rparr>) [Monitor_stopped, Screen_stop]
   \<and> running (monitor (onKeyPress s (of_char CHR ''q''))) = False
   \<and> threads (monitor (onKeyPress s (of_char CHR ''q''))) = []
   \<and> onKeyPress s (of_char CHR ''a'') = memoryScrollUp s 1
   \<and> onKeyPress s (of_char CHR ''s'') = memoryScrollDown s 1
   \<and> onKeyPress s (of_char CHR ''d'') = memoryScrollUp s (memoryLines s)
   \<and> onKeyPress s (of_char CHR ''f'') = memoryScrollDown s (memoryLines s)
   \<and> onKeyPress s (of_char CHR ''g'') = s\<lparr> memoryOffset := 0 \<rparr>
   \<and> (key \<notin> of_char ` {CHR ''q'', CHR ''a'', CHR ''s'', CHR ''d'', CHR ''f'', CHR ''g''}
        \<longrightarrow> onKeyPress s key = s)"
  by (simp add: onKeyPress_def emit_emit memoryPageUp_def memoryPageDown_def Monitor_stop_def)

text \<open>
  The theorem at the key \<^verbatim>\<open>x\<close> on a newly constructed controller.
\<close>

theorem onKeyPress_dispatch_witness:
  "(of_char CHR ''x'' :: int)
      \<notin> of_char ` {CHR ''q'', CHR ''a'', CHR ''s'', CHR ''d'', CHR ''f'', CHR ''g''}
   \<and> onKeyPress (UI_IMPL_new [] \<lparr> width = 200, height = 40 \<rparr> ''vm'') (of_char CHR ''x'')
       = UI_IMPL_new [] \<lparr> width = 200, height = 40 \<rparr> ''vm''"
  using onKeyPress_dispatch [of "UI_IMPL_new [] \<lparr> width = 200, height = 40 \<rparr> ''vm''" "of_char CHR ''x''"]
  by simp

subsection \<open>Panels and the size of the terminal\<close>

text \<open>
  Claim C9. The registers panel makes a call exactly if the width is at least 30 and
  the height at least 25, the stack panel exactly if the width is at least 190 and the
  height at least 25, the memory panel exactly if the width is at least 30 and the height
  at least 35. At width 20 and height 30 a redraw is the drawing of the title alone, and
  each of the three panels leaves the state as it is; at width 200 and height 40 each of
  the three panels draws.
\<close>

theorem panel_gating:
  "(calls (drawRegisters h s) \<noteq> calls s
      \<longleftrightarrow> 30 \<le> width (screen s) \<and> 25 \<le> height (screen s))
   \<and> (calls (drawStack h s) \<noteq> calls s
      \<longleftrightarrow> 190 \<le> width (screen s) \<and> 25 \<le> height (screen s))
   \<and> (calls (drawMemory h s) \<noteq> calls s
      \<longleftrightarrow> 30 \<le> width (screen s) \<and> 35 \<le> height (screen s))
   \<and> (width (screen s) = 20 \<and> height (screen s) = 30 \<longrightarrow>
        onUpdate h s = drawTitle h s \<and> calls (drawTitle h s) \<noteq> calls s
        \<and> drawRegisters h s = s \<and> drawStack h s = s \<and> drawMemory h s = s)
   \<and> (width (screen s) = 200 \<and> height (screen s) = 40 \<longrightarrow>
        calls (drawRegisters h s) \<noteq> calls s
        \<and> calls (drawStack h s) \<noteq> calls s
        \<and> calls (drawMemory h s) \<noteq> calls s)"
proof -
  have small: "onUpdate h s = drawTitle h s \<and> calls (drawTitle h s) \<noteq> calls s
        \<and> drawRegisters h s = s \<and> drawStack h s = s \<and> drawMemory h s = s"
    if "width (screen s) = 20 \<and> height (screen s) = 30"
    using that by (simp add: onUpdate_def draw_skipped drawTitle_screen drawTitle_draws)
  have large: "calls (drawRegisters h s) \<noteq> calls s
        \<and> calls (drawStack h s) \<noteq> calls s
        \<and> calls (drawMemory h s) \<noteq> calls s"
    if "width (screen s) = 200 \<and> height (screen s) = 40"
    using that by (simp add: drawRegisters_draws drawStack_draws drawMemory_draws)
  from small large drawRegisters_draws [of h s] drawStack_draws [of h s]
    drawMemory_draws [of h s]
  show ?thesis by blast
qed

text \<open>
  The theorem at newly constructed controllers on terminals of 20 by 30 and of 200 by
  40.
\<close>

theorem panel_gating_witness:
  "width (screen (UI_IMPL_new [] \<lparr> width = 20, height = 30 \<rparr> ''vm'')) = 20
   \<and> height (screen (UI_IMPL_new [] \<lparr> width = 20, height = 30 \<rparr> ''vm'')) = 30
   \<and> onUpdate example_Helpers (UI_IMPL_new [] \<lparr> width = 20, height = 30 \<rparr> ''vm'')
       = drawTitle example_Helpers (UI_IMPL_new [] \<lparr> width = 20, height = 30 \<rparr> ''vm'')
   \<and> width (screen (UI_IMPL_new [] \<lparr> width = 200, height = 40 \<rparr> ''vm'')) = 200
   \<and> height (screen (UI_IMPL_new [] \<lparr> width = 200, height = 40 \<rparr> ''vm'')) = 40
   \<and> calls (drawStack example_Helpers (UI_IMPL_new [] \<lparr> width = 200, height = 40 \<rparr> ''vm''))
       \<noteq> calls (UI_IMPL_new [] \<lparr> width = 200, height = 40 \<rparr> ''vm'')"
  using panel_gating [of example_Helpers "UI_IMPL_new [] \<lparr> width = 20, height = 30 \<rparr> ''vm''"]
        panel_gating [of example_Helpers "UI_IMPL_new [] \<lparr> width = 200, height = 40 \<rparr> ''vm''"]
  by (simp add: UI_IMPL_new_def)

text \<open>
  Claim C7, as the code has it. When the memory panel is drawn (width at least 30,
  height at least 35) and the dump is present and not empty, the redraw stores
  \<open>(width - 4) div 4 - 5\<close> as bytes per line and \<open>height - 29\<close> as line count, and nothing
  wraps around in these; when the panel is drawn and the dump is absent or empty, the
  calls are those of the frame alone and the state is otherwise unchanged; when the
  terminal is smaller, nothing is drawn and nothing changes. What a whole redraw stores
  as bytes per line and line count is what the memory panel stores.
\<close>

theorem drawMemory_refresh:
  "(\<not> (width (screen s) < 30 \<or> height (screen s) < 35)
      \<and> Monitor_dump (monitor s) = Some d \<and> 0 < memorySize d \<longrightarrow>
        memoryBytesPerLine (drawMemory h s) = (width (screen s) - 4) div 4 - 5
        \<and> memoryLines (drawMemory h s) = height (screen s) - 29
        \<and> unat (memoryBytesPerLine (drawMemory h s)) = (unat (width (screen s)) - 4) div 4 - 5
        \<and> unat (memoryLines (drawMemory h s)) = unat (height (screen s)) - 29
        \<and> totalMemory (drawMemory h s) = memorySize d)
   \<and> (\<not> (width (screen s) < 30 \<or> height (screen s) < 35)
      \<and> (Monitor_dump (monitor s) = None
          \<or> (\<exists>d. Monitor_dump (monitor s) = Some d \<and> memorySize d = 0)) \<longrightarrow>
        drawMemory h s =
          emit s [NewWin (numeric_cast_int h (height (screen s)) - 25)
                    (numeric_cast_int h (width (screen s))) 25 0,
                  Box, WMove 1 2, WPrintw ''Memory:'' [], WMove 2 1,
                  WHline (numeric_cast_int h (width (screen s)) - 2),
                  Screen_refresh, WRefresh, DelWin])
   \<and> (width (screen s) < 30 \<or> height (screen s) < 35 \<longrightarrow> drawMemory h s = s)
   \<and> memoryBytesPerLine (onUpdate h s) = memoryBytesPerLine (drawMemory h s)
   \<and> memoryLines (onUpdate h s) = memoryLines (drawMemory h s)"
proof -
  have a: "memoryBytesPerLine (drawMemory h s) = (width (screen s) - 4) div 4 - 5
        \<and> memoryLines (drawMemory h s) = height (screen s) - 29
        \<and> unat (memoryBytesPerLine (drawMemory h s)) = (unat (width (screen s)) - 4) div 4 - 5
        \<and> unat (memoryLines (drawMemory h s)) = unat (height (screen s)) - 29
        \<and> totalMemory (drawMemory h s) = memorySize d"
    if g: "\<not> (width (screen s) < 30 \<or> height (screen s) < 35)
      \<and> Monitor_dump (monitor s) = Some d \<and> 0 < memorySize d"
  proof -
    from g have w: "30 \<le> width (screen s)" and l: "35 \<le> height (screen s)"
      by (simp_all add: not_less)
    obtain cs where "drawMemory h s = emit (refreshViewport s) cs"
      using drawMemory_emit [of h s] by blast
    with g have f: "memoryBytesPerLine (drawMemory h s) = (width (screen s) - 4) div 4 - 5"
      "memoryLines (drawMemory h s) = height (screen s) - 29"
      "totalMemory (drawMemory h s) = memorySize d"
      by (simp_all add: refreshViewport_def)
    with bytesPerLine_unat(1) [OF w] lines_unat [OF l] show ?thesis by simp
  qed
  have b: "drawMemory h s =
          emit s [NewWin (numeric_cast_int h (height (screen s)) - 25)
                    (numeric_cast_int h (width (screen s))) 25 0,
                  Box, WMove 1 2, WPrintw ''Memory:'' [], WMove 2 1,
                  WHline (numeric_cast_int h (width (screen s)) - 2),
                  Screen_refresh, WRefresh, DelWin]"
    if g: "\<not> (width (screen s) < 30 \<or> height (screen s) < 35)
      \<and> (Monitor_dump (monitor s) = None
          \<or> (\<exists>d. Monitor_dump (monitor s) = Some d \<and> memorySize d = 0))"
    using g by (auto simp: drawMemory_def Let_def emit_emit)
  have c: "drawMemory h s = s" if "width (screen s) < 30 \<or> height (screen s) < 35"
    using that by (rule draw_skipped)
  have t: "memoryBytesPerLine (onUpdate h s) = memoryBytesPerLine (drawMemory h s)"
    "memoryLines (onUpdate h s) = memoryLines (drawMemory h s)"
    by (simp_all only: onUpdate_fields drawMemory_fields)
  from a b c t show ?thesis by blast
qed

text \<open>
  The theorem at \<open>example_UI\<close> (200 by 40, a dump of 100 bytes: 44 bytes per line, 11
  lines), at a new controller on the same terminal (no dump: the frame alone), and at a
  new controller on a terminal of 200 by 30 (nothing is drawn).
\<close>

theorem drawMemory_refresh_witness:
  "\<not> (width (screen example_UI) < 30 \<or> height (screen example_UI) < 35)
   \<and> Monitor_dump (monitor example_UI) = Some (zeroDump 100)
   \<and> 0 < memorySize (zeroDump 100)
   \<and> unat (memoryBytesPerLine (drawMemory example_Helpers example_UI)) = 44
   \<and> unat (memoryLines (drawMemory example_Helpers example_UI)) = 11
   \<and> totalMemory (drawMemory example_Helpers example_UI) = 100
   \<and> Monitor_dump (monitor (UI_IMPL_new [] \<lparr> width = 200, height = 40 \<rparr> ''vm'')) = None
   \<and> calls (drawMemory example_Helpers (UI_IMPL_new [] \<lparr> width = 200, height = 40 \<rparr> ''vm''))
       = [NewWin 15 200 25 0, Box, WMove 1 2, WPrintw ''Memory:'' [], WMove 2 1, WHline 198,
          Screen_refresh, WRefresh, DelWin]
   \<and> height (screen (UI_IMPL_new [] \<lparr> width = 200, height = 30 \<rparr> ''vm'')) < 35
   \<and> drawMemory example_Helpers (UI_IMPL_new [] \<lparr> width = 200, height = 30 \<rparr> ''vm'')
       = UI_IMPL_new [] \<lparr> width = 200, height = 30 \<rparr> ''vm''"
proof -
  have a: "\<not> (width (screen example_UI) < 30 \<or> height (screen example_UI) < 35)
     \<and> Monitor_dump (monitor example_UI) = Some (zeroDump 100)
     \<and> 0 < memorySize (zeroDump 100)"
    by (simp add: example_UI_fields zeroDump_def)
  have b: "\<not> (width (screen (UI_IMPL_new [] \<lparr> width = 200, height = 40 \<rparr> ''vm'')) < 30
            \<or> height (screen (UI_IMPL_new [] \<lparr> width = 200, height = 40 \<rparr> ''vm'')) < 35)
     \<and> Monitor_dump (monitor (UI_IMPL_new [] \<lparr> width = 200, height = 40 \<rparr> ''vm'')) = None"
    by (simp add: UI_IMPL_new_def Monitor_IMPL_new_def Monitor_dump_def)
  have c: "height (screen (UI_IMPL_new [] \<lparr> width = 200, height = 30 \<rparr> ''vm'')) < 35"
    by (simp add: UI_IMPL_new_def)
  from a drawMemory_refresh [of example_UI "zeroDump 100" example_Helpers]
  have 1: "unat (memoryBytesPerLine (drawMemory example_Helpers example_UI)) = 44
   \<and> unat (memoryLines (drawMemory example_Helpers example_UI)) = 11
   \<and> totalMemory (drawMemory example_Helpers example_UI) = 100"
    by (simp add: example_UI_fields zeroDump_def)
  from b drawMemory_refresh [of "UI_IMPL_new [] \<lparr> width = 200, height = 40 \<rparr> ''vm''" _ example_Helpers]
  have 2: "calls (drawMemory example_Helpers (UI_IMPL_new [] \<lparr> width = 200, height = 40 \<rparr> ''vm''))
       = [NewWin 15 200 25 0, Box, WMove 1 2, WPrintw ''Memory:'' [], WMove 2 1, WHline 198,
          Screen_refresh, WRefresh, DelWin]"
    by (simp add: UI_IMPL_new_def example_Helpers_def)
  from c drawMemory_refresh [of "UI_IMPL_new [] \<lparr> width = 200, height = 30 \<rparr> ''vm''" _ example_Helpers]
  have 3: "drawMemory example_Helpers (UI_IMPL_new [] \<lparr> width = 200, height = 30 \<rparr> ''vm'')
       = UI_IMPL_new [] \<lparr> width = 200, height = 30 \<rparr> ''vm''"
    by simp
  from a b c 1 2 3 show ?thesis by simp
qed

text \<open>
  Claim C7 as it was stated fails on a new controller on a terminal of 200 by 40: no dump
  is present, and after a redraw the bytes per line and the line count are still 0, not
  44 and 11.
\<close>

theorem drawMemory_every_tick_counterexample:
  "width (screen (UI_IMPL_new [] \<lparr> width = 200, height = 40 \<rparr> ''vm'')) = 200
   \<and> height (screen (UI_IMPL_new [] \<lparr> width = 200, height = 40 \<rparr> ''vm'')) = 40
   \<and> memoryBytesPerLine (onUpdate example_Helpers
         (UI_IMPL_new [] \<lparr> width = 200, height = 40 \<rparr> ''vm'')) \<noteq> (200 - 4) div 4 - 5
   \<and> memoryLines (onUpdate example_Helpers
         (UI_IMPL_new [] \<lparr> width = 200, height = 40 \<rparr> ''vm'')) \<noteq> 40 - 29"
  by (simp add: onUpdate_fields refreshViewport_def UI_IMPL_new_def Monitor_IMPL_new_def
        Monitor_dump_def)

subsection \<open>Scrolling before the first dump is drawn\<close>

lemma scroll_at_zero:
  assumes "initialViewport s"
  shows "memoryScrollUp s n = s" "memoryScrollDown s n = s"
  using assms by (simp_all add: initialViewport_def memoryScrollUp_def memoryScrollDown_def)

lemma initialViewport_step:
  assumes "initialViewport s" and "\<not> dumpDrawn h s [e]"
  shows "initialViewport (UI_step h s e)"
proof (cases e)
  case Update
  with assms(2) have "refreshViewport s = s"
    by (auto simp: refreshViewport_def split: option.splits)
  with assms(1) Update show ?thesis
    by (simp add: initialViewport_def onUpdate_fields)
next
  case (KeyPress key)
  with assms(1) scroll_at_zero [OF assms(1)] show ?thesis
    by (auto simp: onKeyPress_def memoryPageUp_def memoryPageDown_def initialViewport_def)
qed (use assms(1) in \<open>simp_all add: initialViewport_def UI_run_viewport poll_viewport\<close>)

lemma initialViewport_events:
  "initialViewport s \<Longrightarrow> \<not> dumpDrawn h s es \<Longrightarrow> initialViewport (UI_events h s es)"
proof (induction es arbitrary: s)
  case Nil
  then show ?case by simp
next
  case (Cons e es)
  from Cons.prems have "initialViewport (UI_step h s e)"
    by (intro initialViewport_step) auto
  moreover from Cons.prems have "\<not> dumpDrawn h (UI_step h s e) es" by simp
  ultimately show ?case by (simp add: Cons.IH)
qed

text \<open>
  Claim C10. Let \<open>s\<close> be the state of a newly constructed controller after any events in
  the course of which the memory panel has not drawn a dump that is not empty. Then
  bytes per line, line count, total memory size and offset are 0, the scroll amounts
  \<open>P * 1\<close> and \<open>P * lines\<close> are 0, and each of the keys \<^verbatim>\<open>a\<close>, \<^verbatim>\<open>s\<close>, \<^verbatim>\<open>d\<close>,
  \<^verbatim>\<open>f\<close> leaves the offset, and the whole state, unchanged.
\<close>

theorem scroll_keys_before_first_dump:
  assumes "s = UI_events h (UI_IMPL_new runningVMs scr name) es"
    and "\<not> dumpDrawn h (UI_IMPL_new runningVMs scr name) es"
    and "key \<in> of_char ` {CHR ''a'', CHR ''s'', CHR ''d'', CHR ''f''}"
  shows "memoryBytesPerLine s = 0 \<and> memoryLines s = 0 \<and> totalMemory s = 0
         \<and> memoryOffset s = 0
         \<and> memoryBytesPerLine s * 1 = 0 \<and> memoryBytesPerLine s * memoryLines s = 0
         \<and> memoryOffset (onKeyPress s key) = memoryOffset s
         \<and> onKeyPress s key = s"
proof -
  have "initialViewport (UI_IMPL_new runningVMs scr name)"
    by (simp add: initialViewport_def UI_IMPL_new_def)
  with assms(1,2) have i: "initialViewport s"
    by (simp add: initialViewport_events)
  then have "memoryScrollUp s n = s" "memoryScrollDown s n = s" for n
    by (simp_all add: scroll_at_zero)
  with assms(3) have "onKeyPress s key = s"
    by (auto simp: onKeyPress_def memoryPageUp_def memoryPageDown_def)
  with i show ?thesis by (simp add: initialViewport_def)
qed

text \<open>
  The theorem after \<^verbatim>\<open>run()\<close>, a redraw without a dump and the key \<^verbatim>\<open>f\<close>, for the key
  \<^verbatim>\<open>d\<close>.
\<close>

theorem scroll_keys_before_first_dump_witness:
  "\<not> dumpDrawn example_Helpers (UI_IMPL_new [''vm''] \<lparr> width = 200, height = 40 \<rparr> ''vm'')
        [Run, Update, KeyPress (of_char CHR ''f'')]
   \<and> (of_char CHR ''d'' :: int) \<in> of_char ` {CHR ''a'', CHR ''s'', CHR ''d'', CHR ''f''}
   \<and> onKeyPress (UI_events example_Helpers (UI_IMPL_new [''vm''] \<lparr> width = 200, height = 40 \<rparr> ''vm'')
        [Run, Update, KeyPress (of_char CHR ''f'')]) (of_char CHR ''d'')
       = UI_events example_Helpers (UI_IMPL_new [''vm''] \<lparr> width = 200, height = 40 \<rparr> ''vm'')
        [Run, Update, KeyPress (of_char CHR ''f'')]"
proof -
  have t: "\<not> dumpDrawn example_Helpers (UI_IMPL_new [''vm''] \<lparr> width = 200, height = 40 \<rparr> ''vm'')
        [Run, Update, KeyPress (of_char CHR ''f'')]"
    by (simp add: onUpdate_fields UI_run_def
          UI_IMPL_new_def Monitor_IMPL_new_def Monitor_start_def Monitor_dump_def)
  have k: "(of_char CHR ''d'' :: int) \<in> of_char ` {CHR ''a'', CHR ''s'', CHR ''d'', CHR ''f''}"
    by simp
  from scroll_keys_before_first_dump [OF refl t k] t k show ?thesis by simp
qed

end
